theory Spec2Isabelle
  imports Complex_Main
begin

section \<open>The framework objects the builders create\<close>

text \<open>
  The module \<^verbatim>\<open>src/models/models.py\<close> holds three functions that assemble a Keras
  model from a configuration dictionary. The builders do no numerical work themselves:
  they create layer objects, stack or connect them, and compile the result. The
  embedding records every object with the arguments the builder passes to its
  constructor, in the order of the calls. Shape inference, weight creation and argument
  validation inside the framework are not the builders' code and are not modelled, with
  one exception: the summary of a \<^verbatim>\<open>Sequential\<close> model that was never given an input
  shape, which the framework refuses. A call that the framework rejects for another reason
  (a dropout rate or a unit count it does not accept, branches of a concatenation whose
  shapes differ) raises in the program and returns no model; the statements below are
  about the models that are returned.
\<close>

subsection \<open>Python values\<close>

text \<open>
  The values that \<^verbatim>\<open>eval\<close> of a size expression can give, and that reach a layer as
  kernel size, pool size or strides: an integer, a tuple, a string, \<^verbatim>\<open>None\<close>.
\<close>

datatype pyval =
    PInt int
  | PTuple "pyval list"
  | PStr string
  | PNone

text \<open>
  The exceptions the evaluation of an expression string can raise: the usual ones by
  name, any other one by the name of its class.
\<close>

datatype error =
    SyntaxError
  | NameError
  | TypeError
  | ValueError
  | OtherError string

text \<open>
  A keyword argument of a constructor call: either the call omits it, and the
  framework's default applies, or the call passes a value.
\<close>

datatype 'a kwarg = Omitted | Passed 'a

subsection \<open>Layers\<close>

datatype regularizer = l2 real

datatype initializer = Constant real

datatype layer =
    Conv2D (filters_arg: int) (kernel_size_arg: pyval) (strides_arg: pyval) (padding_arg: string)
      (kernel_initializer_arg: "string kwarg") (activity_regularizer_arg: "regularizer kwarg")
      (input_shape_arg: "int list kwarg")
  | BatchNormalization
  | LeakyReLU
  | MaxPool2D (pool_size_arg: pyval) (padding_arg: string)
  | Flatten
  | Dropout (rate_arg: real)
  | Dense (units_arg: int) (activation_arg: "string kwarg")
      (kernel_initializer_arg: "string kwarg") (activity_regularizer_arg: "regularizer kwarg")
      (bias_initializer_arg: "initializer option kwarg") (name_arg: "string kwarg")

text \<open>
  \<^verbatim>\<open>bias_initializer\<close> is the one keyword that the source passes a possibly-\<^verbatim>\<open>None\<close>
  variable to: \<open>Passed None\<close> is the call \<^verbatim>\<open>bias_initializer=None\<close>, \<open>Omitted\<close> is a call
  without the keyword.
\<close>

subsection \<open>Compilation\<close>

datatype optimizer = Adam (learning_rate: real)

record compile_args =
  loss_arg :: string
  optimizer_arg :: optimizer
  metrics_arg :: "string list"

subsection \<open>Sequential models\<close>

text \<open>
  A \<^verbatim>\<open>Sequential\<close> object is mutated by \<^verbatim>\<open>add\<close>, \<^verbatim>\<open>compile\<close> and \<^verbatim>\<open>summary\<close>; each
  becomes a function from the model to the updated model. \<open>compiled\<close> is \<open>None\<close> until
  \<^verbatim>\<open>compile\<close> has run, and \<open>summarised\<close> records that the summary has been printed.

  The framework builds a \<^verbatim>\<open>Sequential\<close> model at \<^verbatim>\<open>add\<close> when the first layer added
  carries an input shape, and otherwise leaves it unbuilt until it sees data. Of the
  layers of this module only a convolution is ever given \<^verbatim>\<open>input_shape\<close>. \<^verbatim>\<open>compile\<close>
  accepts an unbuilt model; \<^verbatim>\<open>summary\<close> raises \<^verbatim>\<open>ValueError\<close> on it.
\<close>

record sequential =
  name :: string
  layers :: "layer list"
  compiled :: "compile_args option"
  summarised :: bool

definition Sequential :: "string \<Rightarrow> sequential" where
  "Sequential nm = \<lparr>name = nm, layers = [], compiled = None, summarised = False\<rparr>"

definition add :: "sequential \<Rightarrow> layer \<Rightarrow> sequential" where
  "add model l = model\<lparr>layers := layers model @ [l]\<rparr>"

definition compile :: "sequential \<Rightarrow> string \<Rightarrow> optimizer \<Rightarrow> string list \<Rightarrow> sequential" where
  "compile model ls opt ms =
     model\<lparr>compiled := Some \<lparr>loss_arg = ls, optimizer_arg = opt, metrics_arg = ms\<rparr>\<rparr>"

definition built :: "sequential \<Rightarrow> bool" where
  "built model =
     (case layers model of
        [] \<Rightarrow> False
      | l # ls \<Rightarrow>
          (case l of
             Conv2D f k s p ki ar ish \<Rightarrow> ish \<noteq> Omitted
           | _ \<Rightarrow> False))"

definition summary :: "sequential \<Rightarrow> error + sequential" where
  "summary model =
     (if built model then Inr (model\<lparr>summarised := True\<rparr>) else Inl ValueError)"

subsection \<open>Functional models\<close>

text \<open>
  A functional model starts from an \<^verbatim>\<open>Input\<close> tensor, so it is built as soon as it is
  created and its summary prints.

  In the functional style a layer is called on a symbolic tensor and returns a new one.
  A tensor is the term of the calls that produced it, so a tensor used twice (the
  shortcut of a residual block) occurs twice in the term: the graph is the term with
  equal subterms shared.
\<close>

datatype tensor =
    Input "int list"
  | Call layer tensor
  | concatenate "tensor list"

record functional =
  inputs :: tensor
  outputs :: tensor
  compiled_f :: "compile_args option"
  summarised_f :: bool

definition Model :: "tensor \<Rightarrow> tensor \<Rightarrow> functional" where
  "Model i out = \<lparr>inputs = i, outputs = out, compiled_f = None, summarised_f = False\<rparr>"

definition compile_f :: "functional \<Rightarrow> string \<Rightarrow> optimizer \<Rightarrow> string list \<Rightarrow> functional" where
  "compile_f model ls opt ms =
     model\<lparr>compiled_f := Some \<lparr>loss_arg = ls, optimizer_arg = opt, metrics_arg = ms\<rparr>\<rparr>"

definition summary_f :: "functional \<Rightarrow> functional" where
  "summary_f model = model\<lparr>summarised_f := True\<rparr>"

section \<open>The configuration\<close>

text \<open>
  \<^verbatim>\<open>model_config\<close> is a dictionary; the builders read ten keys of it. The record has one
  field per key, so a missing key and a value of the wrong kind are excluded by the
  type. The counts are Python integers, the rates are passed to the framework unchanged,
  and the three sizes are the strings that the builders hand to \<^verbatim>\<open>eval\<close>.
\<close>

record model_config =
  NODES_DENSE0 :: int
  LR :: real
  DROPOUT :: real
  L2_LAMBDA :: real
  INIT_FILTERS :: int
  FILTER_EXP_BASE :: int
  CONV_BLOCKS :: int
  KERNEL_SIZE :: string
  MAXPOOL_SIZE :: string
  STRIDES :: string

text \<open>
  \<^verbatim>\<open>eval\<close> is Python's own evaluator, not code of this module. The builders take it as
  a parameter \<open>ev\<close>: a function from the expression string to the value, or to the
  exception raised. Every statement below holds for every such function.
\<close>

type_synonym evaluator = "string \<Rightarrow> error + pyval"

text \<open>\<^verbatim>\<open>range(n)\<close>: the indices \<open>0, \<dots>, n - 1\<close>, none when \<open>n \<le> 0\<close>.\<close>

definition range_py :: "int \<Rightarrow> nat list" where
  "range_py n = [0..<nat n]"

section \<open>The builders\<close>

subsection \<open>dcnn_binary\<close>

text \<open>The body of the loop of \<^verbatim>\<open>dcnn_binary\<close>, lines 37 to 45.\<close>

definition binary_block ::
  "int \<Rightarrow> int \<Rightarrow> real \<Rightarrow> pyval \<Rightarrow> pyval \<Rightarrow> pyval \<Rightarrow> int list \<Rightarrow> nat \<Rightarrow> sequential \<Rightarrow> sequential" where
  "binary_block init_filters filter_exp_base l2_lambda kernel_size max_pool_size strides
       input_shape i model =
     (let model =
            (if i = 0 then
               add model (Conv2D init_filters kernel_size strides ''same''
                 (Passed ''he_uniform'') (Passed (l2 l2_lambda)) (Passed input_shape))
             else
               add model (Conv2D (init_filters * (filter_exp_base ^ i)) kernel_size strides
                 ''same'' (Passed ''he_uniform'') (Passed (l2 l2_lambda)) Omitted));
          model = add model BatchNormalization;
          model = add model LeakyReLU;
          model = add model (MaxPool2D max_pool_size ''same'')
      in model)"

definition dcnn_binary ::
  "evaluator \<Rightarrow> model_config \<Rightarrow> int list \<Rightarrow> string list \<Rightarrow> real option \<Rightarrow> error + sequential" where
  "dcnn_binary ev model_config input_shape metrics output_bias =
     (let nodes_dense0 = NODES_DENSE0 model_config;
          lr = LR model_config;
          dropout = DROPOUT model_config;
          l2_lambda = L2_LAMBDA model_config;
          optimizer = Adam lr;
          init_filters = INIT_FILTERS model_config;
          filter_exp_base = FILTER_EXP_BASE model_config;
          conv_blocks = CONV_BLOCKS model_config
      in
      (case ev (KERNEL_SIZE model_config) of Inl e \<Rightarrow> Inl e | Inr kernel_size \<Rightarrow>
      (case ev (MAXPOOL_SIZE model_config) of Inl e \<Rightarrow> Inl e | Inr max_pool_size \<Rightarrow>
      (case ev (STRIDES model_config) of Inl e \<Rightarrow> Inl e | Inr strides \<Rightarrow>
      (let output_bias = (case output_bias of None \<Rightarrow> None | Some b \<Rightarrow> Some (Constant b));
           model = Sequential ''covid-19-cxr-custom1'';
           model = fold (binary_block init_filters filter_exp_base l2_lambda kernel_size
                     max_pool_size strides input_shape) (range_py conv_blocks) model;
           model = add model Flatten;
           model = add model (Dropout dropout);
           model = add model (Dense nodes_dense0 Omitted (Passed ''he_uniform'')
                     (Passed (l2 l2_lambda)) Omitted Omitted);
           model = add model LeakyReLU;
           model = add model (Dense 1 (Passed ''sigmoid'') Omitted Omitted
                     (Passed output_bias) (Passed ''output''));
           model = compile model ''binary_crossentropy'' optimizer metrics
       in (case summary model of Inl e \<Rightarrow> Inl e | Inr model \<Rightarrow> Inr model))))))"

subsection \<open>dcnn_multiclass\<close>

text \<open>The body of the loop of \<^verbatim>\<open>dcnn_multiclass\<close>, lines 87 to 95.\<close>

definition multiclass_block ::
  "int \<Rightarrow> int \<Rightarrow> real \<Rightarrow> pyval \<Rightarrow> pyval \<Rightarrow> pyval \<Rightarrow> int list \<Rightarrow> nat \<Rightarrow> sequential \<Rightarrow> sequential" where
  "multiclass_block init_filters filter_exp_base l2_lambda kernel_size max_pool_size strides
       input_shape i model =
     (let model =
            (if i = 0 then
               add model (Conv2D init_filters (PInt (filter_exp_base ^ i)) strides ''same''
                 (Passed ''he_uniform'') (Passed (l2 l2_lambda)) (Passed input_shape))
             else
               add model (Conv2D (init_filters * (filter_exp_base ^ i)) kernel_size strides
                 ''same'' (Passed ''he_uniform'') (Passed (l2 l2_lambda)) Omitted));
          model = add model BatchNormalization;
          model = add model LeakyReLU;
          model = add model (MaxPool2D max_pool_size ''same'')
      in model)"

definition dcnn_multiclass ::
  "evaluator \<Rightarrow> model_config \<Rightarrow> int list \<Rightarrow> int \<Rightarrow> string list \<Rightarrow> error + sequential" where
  "dcnn_multiclass ev model_config input_shape num_classes metrics =
     (let nodes_dense0 = NODES_DENSE0 model_config;
          lr = LR model_config;
          dropout = DROPOUT model_config;
          l2_lambda = L2_LAMBDA model_config;
          optimizer = Adam lr;
          init_filters = INIT_FILTERS model_config;
          filter_exp_base = FILTER_EXP_BASE model_config;
          conv_blocks = CONV_BLOCKS model_config
      in
      (case ev (KERNEL_SIZE model_config) of Inl e \<Rightarrow> Inl e | Inr kernel_size \<Rightarrow>
      (case ev (MAXPOOL_SIZE model_config) of Inl e \<Rightarrow> Inl e | Inr max_pool_size \<Rightarrow>
      (case ev (STRIDES model_config) of Inl e \<Rightarrow> Inl e | Inr strides \<Rightarrow>
      (let model = Sequential ''covid-19-cxr-custom1'';
           model = fold (multiclass_block init_filters filter_exp_base l2_lambda kernel_size
                     max_pool_size strides input_shape) (range_py conv_blocks) model;
           model = add model Flatten;
           model = add model (Dropout dropout);
           model = add model (Dense nodes_dense0 Omitted (Passed ''he_uniform'')
                     (Passed (l2 l2_lambda)) Omitted Omitted);
           model = add model (Dropout dropout);
           model = add model LeakyReLU;
           model = add model (Dense num_classes (Passed ''softmax'') Omitted Omitted
                     Omitted (Passed ''output''));
           model = compile model ''categorical_crossentropy'' optimizer metrics
       in (case summary model of Inl e \<Rightarrow> Inl e | Inr model \<Rightarrow> Inr model))))))"

subsection \<open>dcnn_multiclass_resnet\<close>

text \<open>The body of the loop of \<^verbatim>\<open>dcnn_multiclass_resnet\<close>, lines 139 to 149.\<close>

definition resnet_block ::
  "int \<Rightarrow> int \<Rightarrow> real \<Rightarrow> pyval \<Rightarrow> pyval \<Rightarrow> pyval \<Rightarrow> nat \<Rightarrow> tensor \<Rightarrow> tensor" where
  "resnet_block init_filters filter_exp_base l2_lambda kernel_size max_pool_size strides i X =
     (let X_res = X;
          X = Call (Conv2D (init_filters * (filter_exp_base ^ i)) kernel_size strides ''same''
                 (Passed ''he_uniform'') (Passed (l2 l2_lambda)) Omitted) X;
          X = Call BatchNormalization X;
          X = Call LeakyReLU X;
          X = Call (Conv2D (init_filters * (filter_exp_base ^ i)) kernel_size strides ''same''
                 (Passed ''he_uniform'') (Passed (l2 l2_lambda)) Omitted) X;
          X = concatenate [X, X_res];
          X = Call BatchNormalization X;
          X = Call LeakyReLU X;
          X = Call (MaxPool2D max_pool_size ''same'') X
      in X)"

definition dcnn_multiclass_resnet ::
  "evaluator \<Rightarrow> model_config \<Rightarrow> int list \<Rightarrow> int \<Rightarrow> string list \<Rightarrow> error + functional" where
  "dcnn_multiclass_resnet ev model_config input_shape num_classes metrics =
     (let nodes_dense0 = NODES_DENSE0 model_config;
          lr = LR model_config;
          dropout = DROPOUT model_config;
          l2_lambda = L2_LAMBDA model_config;
          optimizer = Adam lr;
          init_filters = INIT_FILTERS model_config;
          filter_exp_base = FILTER_EXP_BASE model_config;
          conv_blocks = CONV_BLOCKS model_config
      in
      (case ev (KERNEL_SIZE model_config) of Inl e \<Rightarrow> Inl e | Inr kernel_size \<Rightarrow>
      (case ev (MAXPOOL_SIZE model_config) of Inl e \<Rightarrow> Inl e | Inr max_pool_size \<Rightarrow>
      (case ev (STRIDES model_config) of Inl e \<Rightarrow> Inl e | Inr strides \<Rightarrow>
      (let X_input = Input input_shape;
           X = X_input;
           X = fold (resnet_block init_filters filter_exp_base l2_lambda kernel_size
                 max_pool_size strides) (range_py conv_blocks) X;
           X = Call Flatten X;
           X = Call (Dropout dropout) X;
           X = Call (Dense nodes_dense0 Omitted (Passed ''he_uniform'')
                 (Passed (l2 l2_lambda)) Omitted Omitted) X;
           X = Call LeakyReLU X;
           Y = Call (Dense num_classes (Passed ''softmax'') Omitted Omitted
                 Omitted (Passed ''output'')) X;
           model = Model X_input Y;
           model = compile_f model ''categorical_crossentropy'' optimizer metrics;
           model = summary_f model
       in Inr model)))))"

section \<open>Reading a built model\<close>

text \<open>
  The functions of this section are not code of the module: they inspect what a builder
  returned, the way a test of the module would.
\<close>

subsection \<open>Stages of a layer stack\<close>

text \<open>
  A convolutional stage of a \<^verbatim>\<open>Sequential\<close> model is a run of four layers: convolution,
  batch normalisation, leaky activation, max pooling. \<open>conv_stages\<close> splits the longest
  prefix made of such runs from the rest of the stack.
\<close>

fun conv_stages :: "layer list \<Rightarrow> layer list list \<times> layer list" where
  "conv_stages (Conv2D f k s p ki ar ish # BatchNormalization # LeakyReLU # MaxPool2D ps pp # ls) =
     (let (stages, rest) = conv_stages ls
      in ([Conv2D f k s p ki ar ish, BatchNormalization, LeakyReLU, MaxPool2D ps pp] # stages, rest))"
| "conv_stages ls = ([], ls)"

text \<open>The output layer of a stack is its last layer.\<close>

definition output_layer :: "sequential \<Rightarrow> layer option" where
  "output_layer model = (if layers model = [] then None else Some (last (layers model)))"

text \<open>
  The bias initializer the output layer was constructed with: \<open>Some Omitted\<close> when the
  call gave none, so that the default of the layer applies, \<open>Some (Passed v)\<close> when the
  call passed \<open>v\<close>.
\<close>

definition output_bias_arg :: "sequential \<Rightarrow> initializer option kwarg option" where
  "output_bias_arg model = map_option bias_initializer_arg (output_layer model)"

subsection \<open>Stages of a graph\<close>

fun uncall :: "tensor \<Rightarrow> (layer \<times> tensor) option" where
  "uncall (Call l X) = Some (l, X)"
| "uncall X = None"

fun unconcat :: "tensor \<Rightarrow> (tensor \<times> tensor) option" where
  "unconcat (concatenate [A, B]) = Some (A, B)"
| "unconcat X = None"

fun is_Conv2D :: "layer \<Rightarrow> bool" where
  "is_Conv2D (Conv2D f k s p ki ar ish) = True"
| "is_Conv2D l = False"

fun is_MaxPool2D :: "layer \<Rightarrow> bool" where
  "is_MaxPool2D (MaxPool2D ps pp) = True"
| "is_MaxPool2D l = False"

text \<open>The layer that produced the output tensor of a functional model.\<close>

definition output_layer_f :: "functional \<Rightarrow> layer option" where
  "output_layer_f model = map_option fst (uncall (outputs model))"

text \<open>
  A residual stage, read back from the tensor that leaves it. Going from the pooled tensor
  towards the input: the pooling layer, a leaky activation, a batch normalisation, a
  concatenation of two tensors. The first one (\<open>transformed\<close>) must come out of a
  convolution, a leaky activation, a batch normalisation and a convolution, applied to
  \<open>block_input\<close>; the second one is \<open>shortcut\<close>. \<open>pre_pooling\<close> is the tensor that enters
  the pooling layer. Nothing here asks \<open>shortcut\<close> and \<open>block_input\<close> to be the same
  tensor.
\<close>

record residual_stage =
  block_input :: tensor
  first_conv :: layer
  second_conv :: layer
  transformed :: tensor
  shortcut :: tensor
  pre_pooling :: tensor
  pooling :: layer

definition residual_stage_of :: "tensor \<Rightarrow> residual_stage option" where
  "residual_stage_of X =
     (case uncall X of None \<Rightarrow> None | Some (pool, X7) \<Rightarrow>
     (case uncall X7 of None \<Rightarrow> None | Some (act2, X6) \<Rightarrow>
     (case uncall X6 of None \<Rightarrow> None | Some (norm2, X5) \<Rightarrow>
     (case unconcat X5 of None \<Rightarrow> None | Some (X4, X_res) \<Rightarrow>
     (case uncall X4 of None \<Rightarrow> None | Some (conv2, X3) \<Rightarrow>
     (case uncall X3 of None \<Rightarrow> None | Some (act1, X2) \<Rightarrow>
     (case uncall X2 of None \<Rightarrow> None | Some (norm1, X1) \<Rightarrow>
     (case uncall X1 of None \<Rightarrow> None | Some (conv1, X0) \<Rightarrow>
        if is_MaxPool2D pool \<and> act2 = LeakyReLU \<and> norm2 = BatchNormalization \<and>
           is_Conv2D conv2 \<and> act1 = LeakyReLU \<and> norm1 = BatchNormalization \<and> is_Conv2D conv1
        then Some \<lparr>block_input = X0, first_conv = conv1, second_conv = conv2,
                 transformed = X4, shortcut = X_res, pre_pooling = X7, pooling = pool\<rparr>
        else None))))))))"

lemma uncall_size: "uncall X = Some (l, Y) \<Longrightarrow> size Y < size X"
  by (cases X) auto

lemma unconcat_size: "unconcat X = Some (A, B) \<Longrightarrow> size B < size X"
  by (induction X rule: unconcat.induct) auto

lemma residual_stage_of_size:
  assumes "residual_stage_of X = Some st"
  shows "size (shortcut st) < size X"
proof -
  from assms obtain pool X7 act2 X6 norm2 X5 X4 where
    a: "uncall X = Some (pool, X7)" and b: "uncall X7 = Some (act2, X6)"
    and c: "uncall X6 = Some (norm2, X5)" and d: "unconcat X5 = Some (X4, shortcut st)"
    by (auto simp: residual_stage_of_def split: option.splits if_splits)
  from uncall_size[OF a] uncall_size[OF b] uncall_size[OF c] unconcat_size[OF d]
  show ?thesis by linarith
qed

text \<open>
  \<open>residual_stages\<close> follows the shortcuts from a tensor back towards the input, as long
  as it finds stages: it returns them in the order of the blocks, with the tensor at
  which it stopped.
\<close>

function residual_stages :: "tensor \<Rightarrow> residual_stage list \<times> tensor" where
  "residual_stages X =
     (case residual_stage_of X of
        None \<Rightarrow> ([], X)
      | Some st \<Rightarrow> (let (stages, X_input) = residual_stages (shortcut st)
                   in (stages @ [st], X_input)))"
  by pat_completeness auto
termination
  by (relation "measure size") (auto dest: residual_stage_of_size)

declare residual_stages.simps [simp del]

text \<open>The tensor that the \<^verbatim>\<open>Flatten\<close> layer of the head is called on.\<close>

fun flatten_input :: "tensor \<Rightarrow> tensor option" where
  "flatten_input (Call l X) = (if l = Flatten then Some X else flatten_input X)"
| "flatten_input X = None"

text \<open>
  The size of the last axis of an image tensor (channels last, the framework's default):
  the last entry of the input shape, the filter count after a convolution, the sum over
  the inputs after a concatenation along the last axis, unchanged by normalisation,
  activation, dropout and pooling. After \<^verbatim>\<open>Flatten\<close> it depends on the spatial sizes,
  which are not followed here.
\<close>

fun channels :: "tensor \<Rightarrow> int option" where
  "channels (Input shape) = (if shape = [] then None else Some (last shape))"
| "channels (Call l X) =
     (case l of
        Conv2D f k s p ki ar ish \<Rightarrow> Some f
      | Dense u a ki ar bi nm \<Rightarrow> Some u
      | Flatten \<Rightarrow> None
      | _ \<Rightarrow> channels X)"
| "channels (concatenate Xs) = map_option sum_list (those (map channels Xs))"

text \<open>
  The window of a two-dimensional convolution: the framework reads an integer \<open>k\<close> as
  \<open>k\<close> by \<open>k\<close>, and a pair as it is.
\<close>

fun kernel_window :: "pyval \<Rightarrow> (int \<times> int) option" where
  "kernel_window (PInt k) = Some (k, k)"
| "kernel_window (PTuple [PInt h, PInt w]) = Some (h, w)"
| "kernel_window v = None"

section \<open>A sample evaluator and sample configurations\<close>

text \<open>
  The examples need one concrete evaluator. \<open>literal_eval\<close> accepts a decimal literal
  and a pair of decimal literals in parentheses, with the values Python gives them,
  and raises \<^verbatim>\<open>SyntaxError\<close> on every other string.
\<close>

definition digit_of :: "char \<Rightarrow> int option" where
  "digit_of c =
     map_of [(CHR ''0'', 0), (CHR ''1'', 1), (CHR ''2'', 2), (CHR ''3'', 3), (CHR ''4'', 4),
             (CHR ''5'', 5), (CHR ''6'', 6), (CHR ''7'', 7), (CHR ''8'', 8), (CHR ''9'', 9)] c"

fun read_digits :: "int \<Rightarrow> string \<Rightarrow> int option" where
  "read_digits acc [] = Some acc"
| "read_digits acc (c # cs) =
     (case digit_of c of None \<Rightarrow> None | Some d \<Rightarrow> read_digits (10 * acc + d) cs)"

definition read_int :: "string \<Rightarrow> int option" where
  "read_int s =
     (if s = [] \<or> (hd s = CHR ''0'' \<and> tl s \<noteq> []) then None else read_digits 0 s)"

definition literal_eval :: evaluator where
  "literal_eval s =
     (case read_int s of
        Some k \<Rightarrow> Inr (PInt k)
      | None \<Rightarrow>
          (case s of
             [] \<Rightarrow> Inl SyntaxError
           | c # cs \<Rightarrow>
               if c = CHR ''('' \<and> cs \<noteq> [] \<and> last cs = CHR '')'' then
                 (let body = butlast cs;
                      a = takeWhile (\<lambda>c. c \<noteq> CHR '','') body;
                      b = drop (length a + 1) body
                  in case read_int a of
                       None \<Rightarrow> Inl SyntaxError
                     | Some x \<Rightarrow>
                         (case read_int b of
                            None \<Rightarrow> Inl SyntaxError
                          | Some y \<Rightarrow> Inr (PTuple [PInt x, PInt y])))
               else Inl SyntaxError))"

text \<open>
  A configuration with the values of the testable properties of the specification:
  16 initial filters, growth base 2, three blocks.
\<close>

definition sample_config :: model_config where
  "sample_config =
     \<lparr>NODES_DENSE0 = 128, LR = 1 / 100000, DROPOUT = 4 / 10, L2_LAMBDA = 1 / 10000,
      INIT_FILTERS = 16, FILTER_EXP_BASE = 2, CONV_BLOCKS = 3,
      KERNEL_SIZE = ''(3,3)'', MAXPOOL_SIZE = ''(2,2)'', STRIDES = ''(1,1)''\<rparr>"

text \<open>The same configuration with no block.\<close>

definition zero_block_config :: model_config where
  "zero_block_config = sample_config\<lparr>CONV_BLOCKS := 0\<rparr>"

section \<open>What the loops build\<close>

subsection \<open>The layer stacks\<close>

text \<open>
  Each pass of the loop appends four layers and changes nothing else of the model. At
  index 0 the filter count \<open>init_filters\<close> is \<open>init_filters * filter_exp_base ^ 0\<close>, so
  one expression gives the filter count of every block.
\<close>

lemma fold_binary_block:
  "fold (binary_block a b c k p s ish) [0..<n] model =
     model\<lparr>layers := layers model @ concat (map (\<lambda>i.
        [Conv2D (a * b ^ i) k s ''same'' (Passed ''he_uniform'') (Passed (l2 c))
           (if i = 0 then Passed ish else Omitted),
         BatchNormalization, LeakyReLU, MaxPool2D p ''same'']) [0..<n])\<rparr>"
  by (induction n) (simp_all add: binary_block_def add_def)

lemma fold_multiclass_block:
  "fold (multiclass_block a b c k p s ish) [0..<n] model =
     model\<lparr>layers := layers model @ concat (map (\<lambda>i.
        [Conv2D (a * b ^ i) (if i = 0 then PInt (b ^ i) else k) s ''same''
           (Passed ''he_uniform'') (Passed (l2 c)) (if i = 0 then Passed ish else Omitted),
         BatchNormalization, LeakyReLU, MaxPool2D p ''same'']) [0..<n])\<rparr>"
  by (induction n) (simp_all add: multiclass_block_def add_def)

text \<open>
  The stack is built, in the sense of the framework, exactly when the loop ran at least
  once: block 0 puts the convolution that carries the input shape first, and with no
  block the first layer is \<^verbatim>\<open>Flatten\<close>.
\<close>

lemma built_blocks:
  assumes "layers model =
     concat (map (\<lambda>i. [Conv2D (F i) (K i) s pd ki ar (if i = 0 then Passed ish else Omitted),
        BatchNormalization, LeakyReLU, MaxPool2D p pp]) [0..<n]) @ Flatten # rest"
  shows "built model \<longleftrightarrow> 0 < n"
proof (cases n)
  case 0
  with assms show ?thesis by (simp add: built_def)
next
  case (Suc m)
  with assms show ?thesis by (simp add: built_def upt_conv_Cons del: upt_Suc)
qed

text \<open>
  When the three expressions evaluate, a \<^verbatim>\<open>Sequential\<close> builder returns the following
  model if there is at least one block, and otherwise fails at the summary.
\<close>

lemma dcnn_binary_eq:
  assumes "ev (KERNEL_SIZE cfg) = Inr k" and "ev (MAXPOOL_SIZE cfg) = Inr p"
    and "ev (STRIDES cfg) = Inr s"
  shows "dcnn_binary ev cfg ish ms ob =
     (if 0 < CONV_BLOCKS cfg then
        Inr \<lparr>name = ''covid-19-cxr-custom1'',
             layers = concat (map (\<lambda>i.
                   [Conv2D (INIT_FILTERS cfg * FILTER_EXP_BASE cfg ^ i) k s ''same''
                      (Passed ''he_uniform'') (Passed (l2 (L2_LAMBDA cfg)))
                      (if i = 0 then Passed ish else Omitted),
                    BatchNormalization, LeakyReLU, MaxPool2D p ''same''])
                   [0..<nat (CONV_BLOCKS cfg)]) @
                  [Flatten, Dropout (DROPOUT cfg),
                   Dense (NODES_DENSE0 cfg) Omitted (Passed ''he_uniform'')
                     (Passed (l2 (L2_LAMBDA cfg))) Omitted Omitted,
                   LeakyReLU,
                   Dense 1 (Passed ''sigmoid'') Omitted Omitted
                     (Passed (map_option Constant ob)) (Passed ''output'')],
             compiled = Some \<lparr>loss_arg = ''binary_crossentropy'',
                   optimizer_arg = Adam (LR cfg), metrics_arg = ms\<rparr>,
             summarised = True\<rparr>
      else Inl ValueError)"
proof -
  let ?stack = "concat (map (\<lambda>i.
                   [Conv2D (INIT_FILTERS cfg * FILTER_EXP_BASE cfg ^ i) k s ''same''
                      (Passed ''he_uniform'') (Passed (l2 (L2_LAMBDA cfg)))
                      (if i = 0 then Passed ish else Omitted),
                    BatchNormalization, LeakyReLU, MaxPool2D p ''same''])
                   [0..<nat (CONV_BLOCKS cfg)]) @
                  Flatten # [Dropout (DROPOUT cfg),
                   Dense (NODES_DENSE0 cfg) Omitted (Passed ''he_uniform'')
                     (Passed (l2 (L2_LAMBDA cfg))) Omitted Omitted,
                   LeakyReLU,
                   Dense 1 (Passed ''sigmoid'') Omitted Omitted
                     (Passed (map_option Constant ob)) (Passed ''output'')]"
  let ?model = "\<lparr>name = ''covid-19-cxr-custom1'', layers = ?stack,
      compiled = Some \<lparr>loss_arg = ''binary_crossentropy'',
                   optimizer_arg = Adam (LR cfg), metrics_arg = ms\<rparr>,
      summarised = False\<rparr>"
  have b: "built ?model \<longleftrightarrow> 0 < nat (CONV_BLOCKS cfg)"
    by (rule built_blocks) simp
  have "dcnn_binary ev cfg ish ms ob =
      (case summary ?model of Inl e \<Rightarrow> Inl e | Inr model \<Rightarrow> Inr model)"
    using assms
    by (simp add: dcnn_binary_def Let_def fold_binary_block range_py_def Sequential_def add_def
          compile_def map_option_case)
  also have "\<dots> = (if 0 < CONV_BLOCKS cfg then Inr (?model\<lparr>summarised := True\<rparr>)
      else Inl ValueError)"
    using b by (simp add: summary_def)
  finally show ?thesis by simp
qed

lemma dcnn_multiclass_eq:
  assumes "ev (KERNEL_SIZE cfg) = Inr k" and "ev (MAXPOOL_SIZE cfg) = Inr p"
    and "ev (STRIDES cfg) = Inr s"
  shows "dcnn_multiclass ev cfg ish nc ms =
     (if 0 < CONV_BLOCKS cfg then
        Inr \<lparr>name = ''covid-19-cxr-custom1'',
             layers = concat (map (\<lambda>i.
                   [Conv2D (INIT_FILTERS cfg * FILTER_EXP_BASE cfg ^ i)
                      (if i = 0 then PInt (FILTER_EXP_BASE cfg ^ i) else k) s ''same''
                      (Passed ''he_uniform'') (Passed (l2 (L2_LAMBDA cfg)))
                      (if i = 0 then Passed ish else Omitted),
                    BatchNormalization, LeakyReLU, MaxPool2D p ''same''])
                   [0..<nat (CONV_BLOCKS cfg)]) @
                  [Flatten, Dropout (DROPOUT cfg),
                   Dense (NODES_DENSE0 cfg) Omitted (Passed ''he_uniform'')
                     (Passed (l2 (L2_LAMBDA cfg))) Omitted Omitted,
                   Dropout (DROPOUT cfg),
                   LeakyReLU,
                   Dense nc (Passed ''softmax'') Omitted Omitted Omitted (Passed ''output'')],
             compiled = Some \<lparr>loss_arg = ''categorical_crossentropy'',
                   optimizer_arg = Adam (LR cfg), metrics_arg = ms\<rparr>,
             summarised = True\<rparr>
      else Inl ValueError)"
proof -
  let ?stack = "concat (map (\<lambda>i.
                   [Conv2D (INIT_FILTERS cfg * FILTER_EXP_BASE cfg ^ i)
                      (if i = 0 then PInt (FILTER_EXP_BASE cfg ^ i) else k) s ''same''
                      (Passed ''he_uniform'') (Passed (l2 (L2_LAMBDA cfg)))
                      (if i = 0 then Passed ish else Omitted),
                    BatchNormalization, LeakyReLU, MaxPool2D p ''same''])
                   [0..<nat (CONV_BLOCKS cfg)]) @
                  Flatten # [Dropout (DROPOUT cfg),
                   Dense (NODES_DENSE0 cfg) Omitted (Passed ''he_uniform'')
                     (Passed (l2 (L2_LAMBDA cfg))) Omitted Omitted,
                   Dropout (DROPOUT cfg),
                   LeakyReLU,
                   Dense nc (Passed ''softmax'') Omitted Omitted Omitted (Passed ''output'')]"
  let ?model = "\<lparr>name = ''covid-19-cxr-custom1'', layers = ?stack,
      compiled = Some \<lparr>loss_arg = ''categorical_crossentropy'',
                   optimizer_arg = Adam (LR cfg), metrics_arg = ms\<rparr>,
      summarised = False\<rparr>"
  have b: "built ?model \<longleftrightarrow> 0 < nat (CONV_BLOCKS cfg)"
    by (rule built_blocks) simp
  have "dcnn_multiclass ev cfg ish nc ms =
      (case summary ?model of Inl e \<Rightarrow> Inl e | Inr model \<Rightarrow> Inr model)"
    using assms
    by (simp add: dcnn_multiclass_def Let_def fold_multiclass_block range_py_def Sequential_def
          add_def compile_def)
  also have "\<dots> = (if 0 < CONV_BLOCKS cfg then Inr (?model\<lparr>summarised := True\<rparr>)
      else Inl ValueError)"
    using b by (simp add: summary_def)
  finally show ?thesis by simp
qed

text \<open>
  A builder returns a model only when the three expressions evaluate, and then the model
  is the one above.
\<close>

lemma dcnn_binary_evals:
  assumes "dcnn_binary ev cfg ish ms ob = Inr m"
  shows "\<exists>k p s. ev (KERNEL_SIZE cfg) = Inr k \<and> ev (MAXPOOL_SIZE cfg) = Inr p \<and>
           ev (STRIDES cfg) = Inr s"
  using assms by (auto simp: dcnn_binary_def Let_def split: sum.splits)

lemma dcnn_multiclass_evals:
  assumes "dcnn_multiclass ev cfg ish nc ms = Inr m"
  shows "\<exists>k p s. ev (KERNEL_SIZE cfg) = Inr k \<and> ev (MAXPOOL_SIZE cfg) = Inr p \<and>
           ev (STRIDES cfg) = Inr s"
  using assms by (auto simp: dcnn_multiclass_def Let_def split: sum.splits)

lemma dcnn_binary_Inr:
  assumes "dcnn_binary ev cfg ish ms ob = Inr m"
  shows "\<exists>k p s. ev (KERNEL_SIZE cfg) = Inr k \<and> ev (MAXPOOL_SIZE cfg) = Inr p \<and>
           ev (STRIDES cfg) = Inr s \<and>
           m = \<lparr>name = ''covid-19-cxr-custom1'',
                layers = concat (map (\<lambda>i.
                   [Conv2D (INIT_FILTERS cfg * FILTER_EXP_BASE cfg ^ i) k s ''same''
                      (Passed ''he_uniform'') (Passed (l2 (L2_LAMBDA cfg)))
                      (if i = 0 then Passed ish else Omitted),
                    BatchNormalization, LeakyReLU, MaxPool2D p ''same''])
                   [0..<nat (CONV_BLOCKS cfg)]) @
                  [Flatten, Dropout (DROPOUT cfg),
                   Dense (NODES_DENSE0 cfg) Omitted (Passed ''he_uniform'')
                     (Passed (l2 (L2_LAMBDA cfg))) Omitted Omitted,
                   LeakyReLU,
                   Dense 1 (Passed ''sigmoid'') Omitted Omitted
                     (Passed (map_option Constant ob)) (Passed ''output'')],
                compiled = Some \<lparr>loss_arg = ''binary_crossentropy'',
                   optimizer_arg = Adam (LR cfg), metrics_arg = ms\<rparr>,
                summarised = True\<rparr>"
proof -
  from dcnn_binary_evals[OF assms] obtain k p s where
    e: "ev (KERNEL_SIZE cfg) = Inr k" "ev (MAXPOOL_SIZE cfg) = Inr p" "ev (STRIDES cfg) = Inr s"
    by blast
  from assms show ?thesis
    unfolding dcnn_binary_eq[OF e]
    by (intro exI[of _ k] exI[of _ p] exI[of _ s]) (auto simp: e split: if_splits)
qed

lemma dcnn_multiclass_Inr:
  assumes "dcnn_multiclass ev cfg ish nc ms = Inr m"
  shows "\<exists>k p s. ev (KERNEL_SIZE cfg) = Inr k \<and> ev (MAXPOOL_SIZE cfg) = Inr p \<and>
           ev (STRIDES cfg) = Inr s \<and>
           m = \<lparr>name = ''covid-19-cxr-custom1'',
                layers = concat (map (\<lambda>i.
                   [Conv2D (INIT_FILTERS cfg * FILTER_EXP_BASE cfg ^ i)
                      (if i = 0 then PInt (FILTER_EXP_BASE cfg ^ i) else k) s ''same''
                      (Passed ''he_uniform'') (Passed (l2 (L2_LAMBDA cfg)))
                      (if i = 0 then Passed ish else Omitted),
                    BatchNormalization, LeakyReLU, MaxPool2D p ''same''])
                   [0..<nat (CONV_BLOCKS cfg)]) @
                  [Flatten, Dropout (DROPOUT cfg),
                   Dense (NODES_DENSE0 cfg) Omitted (Passed ''he_uniform'')
                     (Passed (l2 (L2_LAMBDA cfg))) Omitted Omitted,
                   Dropout (DROPOUT cfg),
                   LeakyReLU,
                   Dense nc (Passed ''softmax'') Omitted Omitted Omitted (Passed ''output'')],
                compiled = Some \<lparr>loss_arg = ''categorical_crossentropy'',
                   optimizer_arg = Adam (LR cfg), metrics_arg = ms\<rparr>,
                summarised = True\<rparr>"
proof -
  from dcnn_multiclass_evals[OF assms] obtain k p s where
    e: "ev (KERNEL_SIZE cfg) = Inr k" "ev (MAXPOOL_SIZE cfg) = Inr p" "ev (STRIDES cfg) = Inr s"
    by blast
  from assms show ?thesis
    unfolding dcnn_multiclass_eq[OF e]
    by (intro exI[of _ k] exI[of _ p] exI[of _ s]) (auto simp: e split: if_splits)
qed

text \<open>Reading the stages back from a stack that begins with runs of the four layers.\<close>

lemma conv_stages_prefix:
  assumes "\<And>x. x \<in> set xs \<Longrightarrow> \<exists>f k s p ki ar ish ps pp.
             g x = [Conv2D f k s p ki ar ish, BatchNormalization, LeakyReLU, MaxPool2D ps pp]"
  shows "conv_stages (concat (map g xs) @ rest) =
           (map g xs @ fst (conv_stages rest), snd (conv_stages rest))"
  using assms
proof (induction xs)
  case Nil
  then show ?case by simp
next
  case (Cons x xs)
  from Cons.prems[of x] obtain f k s p ki ar ish ps pp where
    g: "g x = [Conv2D f k s p ki ar ish, BatchNormalization, LeakyReLU, MaxPool2D ps pp]"
    by auto
  have "conv_stages (concat (map g xs) @ rest) =
           (map g xs @ fst (conv_stages rest), snd (conv_stages rest))"
    using Cons by simp
  then show ?case by (simp add: g)
qed

subsection \<open>The residual graph\<close>

lemma residual_stage_of_resnet_block:
  "residual_stage_of (resnet_block a b c k p s i X) =
     Some \<lparr>block_input = X,
           first_conv = Conv2D (a * b ^ i) k s ''same'' (Passed ''he_uniform'') (Passed (l2 c)) Omitted,
           second_conv = Conv2D (a * b ^ i) k s ''same'' (Passed ''he_uniform'') (Passed (l2 c)) Omitted,
           transformed =
             Call (Conv2D (a * b ^ i) k s ''same'' (Passed ''he_uniform'') (Passed (l2 c)) Omitted)
               (Call LeakyReLU (Call BatchNormalization
                 (Call (Conv2D (a * b ^ i) k s ''same'' (Passed ''he_uniform'') (Passed (l2 c)) Omitted) X))),
           shortcut = X,
           pre_pooling = Call LeakyReLU (Call BatchNormalization (concatenate
             [Call (Conv2D (a * b ^ i) k s ''same'' (Passed ''he_uniform'') (Passed (l2 c)) Omitted)
               (Call LeakyReLU (Call BatchNormalization
                 (Call (Conv2D (a * b ^ i) k s ''same'' (Passed ''he_uniform'') (Passed (l2 c)) Omitted) X))),
              X])),
           pooling = MaxPool2D p ''same''\<rparr>"
  by (simp add: resnet_block_def residual_stage_of_def Let_def)

lemma residual_stages_resnet_block:
  "residual_stages (resnet_block a b c k p s i X) =
     (fst (residual_stages X) @ [the (residual_stage_of (resnet_block a b c k p s i X))],
      snd (residual_stages X))"
  by (subst residual_stages.simps)
     (simp add: residual_stage_of_resnet_block split: prod.splits)

lemma residual_stages_fold:
  "residual_stages (fold (resnet_block a b c k p s) [0..<n] X) =
     (fst (residual_stages X) @
        map (\<lambda>i. the (residual_stage_of
               (resnet_block a b c k p s i (fold (resnet_block a b c k p s) [0..<i] X))))
          [0..<n],
      snd (residual_stages X))"
  by (induction n) (simp_all add: residual_stages_resnet_block)

lemma residual_stages_Input: "residual_stages (Input ish) = ([], Input ish)"
  by (subst residual_stages.simps) (simp add: residual_stage_of_def)

lemma channels_resnet_block:
  "channels X = Some ch \<Longrightarrow> channels (resnet_block a b c k p s i X) = Some (a * b ^ i + ch)"
  by (simp add: resnet_block_def Let_def)

lemma channels_fold:
  "channels X = Some ch \<Longrightarrow>
   channels (fold (resnet_block a b c k p s) [0..<n] X) = Some (ch + (\<Sum>j<n. a * b ^ j))"
  by (induction n) (simp_all add: channels_resnet_block)

lemma dcnn_multiclass_resnet_Inr:
  assumes "dcnn_multiclass_resnet ev cfg ish nc ms = Inr m"
  shows "\<exists>k p s. ev (KERNEL_SIZE cfg) = Inr k \<and> ev (MAXPOOL_SIZE cfg) = Inr p \<and>
           ev (STRIDES cfg) = Inr s \<and>
           m = \<lparr>inputs = Input ish,
                outputs =
                  Call (Dense nc (Passed ''softmax'') Omitted Omitted Omitted (Passed ''output''))
                    (Call LeakyReLU
                      (Call (Dense (NODES_DENSE0 cfg) Omitted (Passed ''he_uniform'')
                               (Passed (l2 (L2_LAMBDA cfg))) Omitted Omitted)
                        (Call (Dropout (DROPOUT cfg))
                          (Call Flatten
                            (fold (resnet_block (INIT_FILTERS cfg) (FILTER_EXP_BASE cfg)
                                     (L2_LAMBDA cfg) k p s)
                               [0..<nat (CONV_BLOCKS cfg)] (Input ish)))))),
                compiled_f = Some \<lparr>loss_arg = ''categorical_crossentropy'',
                   optimizer_arg = Adam (LR cfg), metrics_arg = ms\<rparr>,
                summarised_f = True\<rparr>"
  using assms
  by (auto simp: dcnn_multiclass_resnet_def Let_def range_py_def Model_def
        compile_f_def summary_f_def split: sum.splits)

subsection \<open>The stages read back\<close>

lemma conv_stages_blocks:
  "conv_stages (concat (map (\<lambda>i. [Conv2D (F i) (K i) s pd ki ar (I i), BatchNormalization,
       LeakyReLU, MaxPool2D p pp]) [0..<n]) @ Flatten # rest) =
     (map (\<lambda>i. [Conv2D (F i) (K i) s pd ki ar (I i), BatchNormalization, LeakyReLU,
        MaxPool2D p pp]) [0..<n], Flatten # rest)"
  by (subst conv_stages_prefix) auto

lemma binary_stages:
  assumes "dcnn_binary ev cfg ish ms ob = Inr m"
  shows "\<exists>k p s rest. ev (KERNEL_SIZE cfg) = Inr k \<and>
           conv_stages (layers m) =
             (map (\<lambda>i. [Conv2D (INIT_FILTERS cfg * FILTER_EXP_BASE cfg ^ i) k s ''same''
                      (Passed ''he_uniform'') (Passed (l2 (L2_LAMBDA cfg)))
                      (if i = 0 then Passed ish else Omitted),
                    BatchNormalization, LeakyReLU, MaxPool2D p ''same''])
                [0..<nat (CONV_BLOCKS cfg)], Flatten # rest)"
proof -
  from dcnn_binary_Inr[OF assms] obtain k p s where
    k: "ev (KERNEL_SIZE cfg) = Inr k" and
    l: "layers m = concat (map (\<lambda>i.
                   [Conv2D (INIT_FILTERS cfg * FILTER_EXP_BASE cfg ^ i) k s ''same''
                      (Passed ''he_uniform'') (Passed (l2 (L2_LAMBDA cfg)))
                      (if i = 0 then Passed ish else Omitted),
                    BatchNormalization, LeakyReLU, MaxPool2D p ''same''])
                   [0..<nat (CONV_BLOCKS cfg)]) @
                  Flatten # [Dropout (DROPOUT cfg),
                   Dense (NODES_DENSE0 cfg) Omitted (Passed ''he_uniform'')
                     (Passed (l2 (L2_LAMBDA cfg))) Omitted Omitted,
                   LeakyReLU,
                   Dense 1 (Passed ''sigmoid'') Omitted Omitted
                     (Passed (map_option Constant ob)) (Passed ''output'')]"
    by auto
  show ?thesis
    unfolding l by (subst conv_stages_blocks) (use k in blast)
qed

lemma multiclass_stages:
  assumes "dcnn_multiclass ev cfg ish nc ms = Inr m"
  shows "\<exists>k p s rest. ev (KERNEL_SIZE cfg) = Inr k \<and>
           conv_stages (layers m) =
             (map (\<lambda>i. [Conv2D (INIT_FILTERS cfg * FILTER_EXP_BASE cfg ^ i)
                      (if i = 0 then PInt (FILTER_EXP_BASE cfg ^ i) else k) s ''same''
                      (Passed ''he_uniform'') (Passed (l2 (L2_LAMBDA cfg)))
                      (if i = 0 then Passed ish else Omitted),
                    BatchNormalization, LeakyReLU, MaxPool2D p ''same''])
                [0..<nat (CONV_BLOCKS cfg)], Flatten # rest)"
proof -
  from dcnn_multiclass_Inr[OF assms] obtain k p s where
    k: "ev (KERNEL_SIZE cfg) = Inr k" and
    l: "layers m = concat (map (\<lambda>i.
                   [Conv2D (INIT_FILTERS cfg * FILTER_EXP_BASE cfg ^ i)
                      (if i = 0 then PInt (FILTER_EXP_BASE cfg ^ i) else k) s ''same''
                      (Passed ''he_uniform'') (Passed (l2 (L2_LAMBDA cfg)))
                      (if i = 0 then Passed ish else Omitted),
                    BatchNormalization, LeakyReLU, MaxPool2D p ''same''])
                   [0..<nat (CONV_BLOCKS cfg)]) @
                  Flatten # [Dropout (DROPOUT cfg),
                   Dense (NODES_DENSE0 cfg) Omitted (Passed ''he_uniform'')
                     (Passed (l2 (L2_LAMBDA cfg))) Omitted Omitted,
                   Dropout (DROPOUT cfg),
                   LeakyReLU,
                   Dense nc (Passed ''softmax'') Omitted Omitted Omitted (Passed ''output'')]"
    by auto
  show ?thesis
    unfolding l by (subst conv_stages_blocks) (use k in blast)
qed

lemma resnet_stages:
  assumes "dcnn_multiclass_resnet ev cfg ish nc ms = Inr m"
  shows "\<exists>k p s body. ev (KERNEL_SIZE cfg) = Inr k \<and>
           inputs m = Input ish \<and>
           flatten_input (outputs m) = Some body \<and>
           residual_stages body =
             (map (\<lambda>i. the (residual_stage_of
                 (resnet_block (INIT_FILTERS cfg) (FILTER_EXP_BASE cfg) (L2_LAMBDA cfg) k p s i
                    (fold (resnet_block (INIT_FILTERS cfg) (FILTER_EXP_BASE cfg) (L2_LAMBDA cfg)
                       k p s) [0..<i] (Input ish)))))
                [0..<nat (CONV_BLOCKS cfg)], Input ish)"
proof -
  from dcnn_multiclass_resnet_Inr[OF assms] obtain k p s where
    k: "ev (KERNEL_SIZE cfg) = Inr k" and
    m: "m = \<lparr>inputs = Input ish,
                outputs =
                  Call (Dense nc (Passed ''softmax'') Omitted Omitted Omitted (Passed ''output''))
                    (Call LeakyReLU
                      (Call (Dense (NODES_DENSE0 cfg) Omitted (Passed ''he_uniform'')
                               (Passed (l2 (L2_LAMBDA cfg))) Omitted Omitted)
                        (Call (Dropout (DROPOUT cfg))
                          (Call Flatten
                            (fold (resnet_block (INIT_FILTERS cfg) (FILTER_EXP_BASE cfg)
                                     (L2_LAMBDA cfg) k p s)
                               [0..<nat (CONV_BLOCKS cfg)] (Input ish)))))),
                compiled_f = Some \<lparr>loss_arg = ''categorical_crossentropy'',
                   optimizer_arg = Adam (LR cfg), metrics_arg = ms\<rparr>,
                summarised_f = True\<rparr>"
    by auto
  show ?thesis
    unfolding m using k
    by (intro exI[of _ k] exI[of _ p] exI[of _ s])
       (simp add: residual_stages_fold residual_stages_Input)
qed

lemma resnet_stage_nth:
  assumes "dcnn_multiclass_resnet ev cfg ish nc ms = Inr m"
  shows "\<exists>k p s body. ev (KERNEL_SIZE cfg) = Inr k \<and>
           inputs m = Input ish \<and>
           flatten_input (outputs m) = Some body \<and>
           (\<forall>i < nat (CONV_BLOCKS cfg).
              fst (residual_stages body) ! i =
                the (residual_stage_of
                  (resnet_block (INIT_FILTERS cfg) (FILTER_EXP_BASE cfg) (L2_LAMBDA cfg) k p s i
                    (fold (resnet_block (INIT_FILTERS cfg) (FILTER_EXP_BASE cfg) (L2_LAMBDA cfg)
                       k p s) [0..<i] (Input ish)))))"
proof -
  from resnet_stages[OF assms] obtain k p s body where
    "ev (KERNEL_SIZE cfg) = Inr k" "inputs m = Input ish" "flatten_input (outputs m) = Some body"
    "residual_stages body =
             (map (\<lambda>i. the (residual_stage_of
                 (resnet_block (INIT_FILTERS cfg) (FILTER_EXP_BASE cfg) (L2_LAMBDA cfg) k p s i
                    (fold (resnet_block (INIT_FILTERS cfg) (FILTER_EXP_BASE cfg) (L2_LAMBDA cfg)
                       k p s) [0..<i] (Input ish)))))
                [0..<nat (CONV_BLOCKS cfg)], Input ish)"
    by blast
  then show ?thesis
    by (intro exI[of _ k] exI[of _ p] exI[of _ s] exI[of _ body]) simp
qed

text \<open>The stages and the rest that \<open>conv_stages\<close> returns are the whole stack, in order.\<close>

lemma conv_stages_concat: "concat (fst (conv_stages ls)) @ snd (conv_stages ls) = ls"
  by (induction ls rule: conv_stages.induct) (auto split: prod.splits)

section \<open>The sample configuration builds\<close>

lemma sample_evals:
  "literal_eval ''(3,3)'' = Inr (PTuple [PInt 3, PInt 3])"
  "literal_eval ''(2,2)'' = Inr (PTuple [PInt 2, PInt 2])"
  "literal_eval ''(1,1)'' = Inr (PTuple [PInt 1, PInt 1])"
  "literal_eval ''(3,3'' = Inl SyntaxError"
  by (simp_all add: literal_eval_def read_int_def digit_of_def)

lemma sample_config_evals:
  "literal_eval (KERNEL_SIZE sample_config) = Inr (PTuple [PInt 3, PInt 3])"
  "literal_eval (MAXPOOL_SIZE sample_config) = Inr (PTuple [PInt 2, PInt 2])"
  "literal_eval (STRIDES sample_config) = Inr (PTuple [PInt 1, PInt 1])"
  by (simp_all add: sample_config_def sample_evals)

lemma sample_binary:
  "\<exists>m. dcnn_binary literal_eval sample_config ish ms ob = Inr m"
  unfolding dcnn_binary_eq[OF sample_config_evals] by (simp add: sample_config_def)

lemma sample_multiclass:
  "\<exists>m. dcnn_multiclass literal_eval sample_config ish nc ms = Inr m"
  unfolding dcnn_multiclass_eq[OF sample_config_evals] by (simp add: sample_config_def)

lemma sample_resnet:
  "\<exists>m. dcnn_multiclass_resnet literal_eval sample_config ish nc ms = Inr m"
  by (simp add: dcnn_multiclass_resnet_def sample_config_def sample_evals Let_def)

section \<open>The output layer\<close>

text \<open>
  Claim C1. Whatever the configuration and the input shape, the model a builder returns
  ends in the expected output layer: for \<^verbatim>\<open>dcnn_binary\<close> a dense layer of one unit with
  sigmoid activation, for \<^verbatim>\<open>dcnn_multiclass\<close> and \<^verbatim>\<open>dcnn_multiclass_resnet\<close> a dense layer
  of \<open>num_classes\<close> units with softmax activation.
\<close>

theorem output_layer_units:
  "(dcnn_binary ev cfg ish ms ob = Inr m1 \<longrightarrow>
      (\<exists>ki ar bi nm. output_layer m1 = Some (Dense 1 (Passed ''sigmoid'') ki ar bi nm))) \<and>
   (dcnn_multiclass ev cfg ish nc ms = Inr m2 \<longrightarrow>
      (\<exists>ki ar bi nm. output_layer m2 = Some (Dense nc (Passed ''softmax'') ki ar bi nm))) \<and>
   (dcnn_multiclass_resnet ev cfg ish nc ms = Inr m3 \<longrightarrow>
      (\<exists>ki ar bi nm. output_layer_f m3 = Some (Dense nc (Passed ''softmax'') ki ar bi nm)))"
proof (intro conjI impI)
  assume "dcnn_binary ev cfg ish ms ob = Inr m1"
  from dcnn_binary_Inr[OF this]
  show "\<exists>ki ar bi nm. output_layer m1 = Some (Dense 1 (Passed ''sigmoid'') ki ar bi nm)"
    by (auto simp: output_layer_def)
next
  assume "dcnn_multiclass ev cfg ish nc ms = Inr m2"
  from dcnn_multiclass_Inr[OF this]
  show "\<exists>ki ar bi nm. output_layer m2 = Some (Dense nc (Passed ''softmax'') ki ar bi nm)"
    by (auto simp: output_layer_def)
next
  assume "dcnn_multiclass_resnet ev cfg ish nc ms = Inr m3"
  from dcnn_multiclass_resnet_Inr[OF this]
  show "\<exists>ki ar bi nm. output_layer_f m3 = Some (Dense nc (Passed ''softmax'') ki ar bi nm)"
    by (auto simp: output_layer_f_def)
qed

theorem output_layer_units_witness:
  "\<exists>m1 m2 m3.
     dcnn_binary literal_eval sample_config [224, 224, 3] [''accuracy''] None = Inr m1 \<and>
     dcnn_multiclass literal_eval sample_config [224, 224, 3] 3 [''accuracy''] = Inr m2 \<and>
     dcnn_multiclass_resnet literal_eval sample_config [224, 224, 3] 3 [''accuracy''] = Inr m3 \<and>
     (\<exists>ki ar bi nm. output_layer m1 = Some (Dense 1 (Passed ''sigmoid'') ki ar bi nm)) \<and>
     (\<exists>ki ar bi nm. output_layer m2 = Some (Dense 3 (Passed ''softmax'') ki ar bi nm)) \<and>
     (\<exists>ki ar bi nm. output_layer_f m3 = Some (Dense 3 (Passed ''softmax'') ki ar bi nm))"
proof -
  obtain m1 where 1:
    "dcnn_binary literal_eval sample_config [224, 224, 3] [''accuracy''] None = Inr m1"
    using sample_binary by blast
  obtain m2 where 2:
    "dcnn_multiclass literal_eval sample_config [224, 224, 3] 3 [''accuracy''] = Inr m2"
    using sample_multiclass by blast
  obtain m3 where 3:
    "dcnn_multiclass_resnet literal_eval sample_config [224, 224, 3] 3 [''accuracy''] = Inr m3"
    using sample_resnet by blast
  from output_layer_units[of literal_eval sample_config "[224, 224, 3]" "[''accuracy'']"
      None m1 3 m2 m3] 1 2 3
  show ?thesis by blast
qed

section \<open>The number of stages\<close>

text \<open>
  Claim C3. The model a builder returns has as many convolutional stages as the
  configured block count \<open>n\<close> (none when \<open>n\<close> is zero or negative, as \<^verbatim>\<open>range\<close> is then
  empty), and the stages come before the head: in the two stacks the stages are followed
  by \<^verbatim>\<open>Flatten\<close>, and in the residual graph the tensor that \<^verbatim>\<open>Flatten\<close> is called on
  is the last of \<open>n\<close> residual stages that lead back to the input of the model.
\<close>

theorem stage_count:
  "(dcnn_binary ev cfg ish ms ob = Inr m1 \<longrightarrow>
      length (fst (conv_stages (layers m1))) = nat (CONV_BLOCKS cfg) \<and>
      (\<exists>rest. snd (conv_stages (layers m1)) = Flatten # rest)) \<and>
   (dcnn_multiclass ev cfg ish nc ms = Inr m2 \<longrightarrow>
      length (fst (conv_stages (layers m2))) = nat (CONV_BLOCKS cfg) \<and>
      (\<exists>rest. snd (conv_stages (layers m2)) = Flatten # rest)) \<and>
   (dcnn_multiclass_resnet ev cfg ish nc ms = Inr m3 \<longrightarrow>
      (\<exists>body. flatten_input (outputs m3) = Some body \<and>
         length (fst (residual_stages body)) = nat (CONV_BLOCKS cfg) \<and>
         snd (residual_stages body) = inputs m3))"
proof (intro conjI impI)
  assume "dcnn_binary ev cfg ish ms ob = Inr m1"
  from binary_stages[OF this]
  show "length (fst (conv_stages (layers m1))) = nat (CONV_BLOCKS cfg)"
    and "\<exists>rest. snd (conv_stages (layers m1)) = Flatten # rest"
    by auto
next
  assume "dcnn_multiclass ev cfg ish nc ms = Inr m2"
  from multiclass_stages[OF this]
  show "length (fst (conv_stages (layers m2))) = nat (CONV_BLOCKS cfg)"
    and "\<exists>rest. snd (conv_stages (layers m2)) = Flatten # rest"
    by auto
next
  assume "dcnn_multiclass_resnet ev cfg ish nc ms = Inr m3"
  from resnet_stages[OF this]
  show "\<exists>body. flatten_input (outputs m3) = Some body \<and>
         length (fst (residual_stages body)) = nat (CONV_BLOCKS cfg) \<and>
         snd (residual_stages body) = inputs m3"
    by auto
qed

theorem stage_count_witness:
  "\<exists>m1 m2 m3 body.
     dcnn_binary literal_eval sample_config [224, 224, 3] [''accuracy''] None = Inr m1 \<and>
     dcnn_multiclass literal_eval sample_config [224, 224, 3] 3 [''accuracy''] = Inr m2 \<and>
     dcnn_multiclass_resnet literal_eval sample_config [224, 224, 3] 3 [''accuracy''] = Inr m3 \<and>
     length (fst (conv_stages (layers m1))) = 3 \<and>
     length (fst (conv_stages (layers m2))) = 3 \<and>
     flatten_input (outputs m3) = Some body \<and>
     length (fst (residual_stages body)) = 3 \<and>
     snd (residual_stages body) = Input [224, 224, 3]"
proof -
  obtain m1 where 1:
    "dcnn_binary literal_eval sample_config [224, 224, 3] [''accuracy''] None = Inr m1"
    using sample_binary by blast
  obtain m2 where 2:
    "dcnn_multiclass literal_eval sample_config [224, 224, 3] 3 [''accuracy''] = Inr m2"
    using sample_multiclass by blast
  obtain m3 where 3:
    "dcnn_multiclass_resnet literal_eval sample_config [224, 224, 3] 3 [''accuracy''] = Inr m3"
    using sample_resnet by blast
  have n: "nat (CONV_BLOCKS sample_config) = 3"
    by (simp add: sample_config_def)
  have i: "inputs m3 = Input [224, 224, 3]"
    using dcnn_multiclass_resnet_Inr[OF 3] by auto
  from stage_count[of literal_eval sample_config "[224, 224, 3]" "[''accuracy'']"
      None m1 3 m2 m3] 1 2 3
  show ?thesis unfolding n i by blast
qed

section \<open>The filter counts\<close>

text \<open>
  Claim C4. In the model each builder returns, the convolution of block \<open>i\<close> (both
  convolutions, in a residual block) has \<open>INIT_FILTERS * FILTER_EXP_BASE ^ i\<close> filters,
  for every block index \<open>i\<close> below the block count. With 16 initial filters and growth
  base 2 the blocks 0, 1 and 2 have 16, 32 and 64 filters: this is the example that
  follows the theorem.
\<close>

theorem filter_growth:
  "(dcnn_binary ev cfg ish ms ob = Inr m1 \<longrightarrow>
      (\<forall>i < nat (CONV_BLOCKS cfg).
         is_Conv2D (hd (fst (conv_stages (layers m1)) ! i)) \<and>
         filters_arg (hd (fst (conv_stages (layers m1)) ! i)) =
           INIT_FILTERS cfg * FILTER_EXP_BASE cfg ^ i)) \<and>
   (dcnn_multiclass ev cfg ish nc ms = Inr m2 \<longrightarrow>
      (\<forall>i < nat (CONV_BLOCKS cfg).
         is_Conv2D (hd (fst (conv_stages (layers m2)) ! i)) \<and>
         filters_arg (hd (fst (conv_stages (layers m2)) ! i)) =
           INIT_FILTERS cfg * FILTER_EXP_BASE cfg ^ i)) \<and>
   (dcnn_multiclass_resnet ev cfg ish nc ms = Inr m3 \<longrightarrow>
      (\<exists>body. flatten_input (outputs m3) = Some body \<and>
         (\<forall>i < nat (CONV_BLOCKS cfg).
            is_Conv2D (first_conv (fst (residual_stages body) ! i)) \<and>
            is_Conv2D (second_conv (fst (residual_stages body) ! i)) \<and>
            filters_arg (first_conv (fst (residual_stages body) ! i)) =
              INIT_FILTERS cfg * FILTER_EXP_BASE cfg ^ i \<and>
            filters_arg (second_conv (fst (residual_stages body) ! i)) =
              INIT_FILTERS cfg * FILTER_EXP_BASE cfg ^ i)))"
proof (intro conjI impI)
  assume "dcnn_binary ev cfg ish ms ob = Inr m1"
  from binary_stages[OF this]
  show "\<forall>i < nat (CONV_BLOCKS cfg).
         is_Conv2D (hd (fst (conv_stages (layers m1)) ! i)) \<and>
         filters_arg (hd (fst (conv_stages (layers m1)) ! i)) =
           INIT_FILTERS cfg * FILTER_EXP_BASE cfg ^ i"
    by auto
next
  assume "dcnn_multiclass ev cfg ish nc ms = Inr m2"
  from multiclass_stages[OF this]
  show "\<forall>i < nat (CONV_BLOCKS cfg).
         is_Conv2D (hd (fst (conv_stages (layers m2)) ! i)) \<and>
         filters_arg (hd (fst (conv_stages (layers m2)) ! i)) =
           INIT_FILTERS cfg * FILTER_EXP_BASE cfg ^ i"
    by auto
next
  assume "dcnn_multiclass_resnet ev cfg ish nc ms = Inr m3"
  from resnet_stage_nth[OF this]
  show "\<exists>body. flatten_input (outputs m3) = Some body \<and>
         (\<forall>i < nat (CONV_BLOCKS cfg).
            is_Conv2D (first_conv (fst (residual_stages body) ! i)) \<and>
            is_Conv2D (second_conv (fst (residual_stages body) ! i)) \<and>
            filters_arg (first_conv (fst (residual_stages body) ! i)) =
              INIT_FILTERS cfg * FILTER_EXP_BASE cfg ^ i \<and>
            filters_arg (second_conv (fst (residual_stages body) ! i)) =
              INIT_FILTERS cfg * FILTER_EXP_BASE cfg ^ i)"
    by (auto simp: residual_stage_of_resnet_block)
qed

theorem filter_growth_witness:
  "\<exists>m1 m2 m3 body.
     dcnn_binary literal_eval sample_config [224, 224, 3] [''accuracy''] None = Inr m1 \<and>
     dcnn_multiclass literal_eval sample_config [224, 224, 3] 3 [''accuracy''] = Inr m2 \<and>
     dcnn_multiclass_resnet literal_eval sample_config [224, 224, 3] 3 [''accuracy''] = Inr m3 \<and>
     flatten_input (outputs m3) = Some body \<and>
     map (\<lambda>i. filters_arg (hd (fst (conv_stages (layers m1)) ! i))) [0, 1, 2] = [16, 32, 64] \<and>
     map (\<lambda>i. filters_arg (hd (fst (conv_stages (layers m2)) ! i))) [0, 1, 2] = [16, 32, 64] \<and>
     map (\<lambda>i. filters_arg (first_conv (fst (residual_stages body) ! i))) [0, 1, 2] = [16, 32, 64] \<and>
     map (\<lambda>i. filters_arg (second_conv (fst (residual_stages body) ! i))) [0, 1, 2] = [16, 32, 64]"
proof -
  obtain m1 where 1:
    "dcnn_binary literal_eval sample_config [224, 224, 3] [''accuracy''] None = Inr m1"
    using sample_binary by blast
  obtain m2 where 2:
    "dcnn_multiclass literal_eval sample_config [224, 224, 3] 3 [''accuracy''] = Inr m2"
    using sample_multiclass by blast
  obtain m3 where 3:
    "dcnn_multiclass_resnet literal_eval sample_config [224, 224, 3] 3 [''accuracy''] = Inr m3"
    using sample_resnet by blast
  have n: "nat (CONV_BLOCKS sample_config) = 3" "INIT_FILTERS sample_config = 16"
    "FILTER_EXP_BASE sample_config = 2"
    by (simp_all add: sample_config_def)
  from filter_growth[of literal_eval sample_config "[224, 224, 3]" "[''accuracy'']"
      None m1 3 m2 m3] 1 2 3
  show ?thesis unfolding n by (auto intro!: exI[of _ m1] exI[of _ m2] exI[of _ m3])
qed

section \<open>The kernel sizes\<close>

text \<open>
  Claim C2. Let \<open>kernel_size\<close> be the value of the configured kernel-size expression. In
  the model \<^verbatim>\<open>dcnn_multiclass\<close> returns, the convolution of block 0 has as kernel size the
  integer \<open>FILTER_EXP_BASE ^ 0\<close>, the growth base raised to the block index, and not
  \<open>kernel_size\<close>; the convolution of every later block has \<open>kernel_size\<close>. In the models
  of \<^verbatim>\<open>dcnn_binary\<close> and \<^verbatim>\<open>dcnn_multiclass_resnet\<close> every convolution of every block has
  \<open>kernel_size\<close>.
\<close>

theorem multiclass_first_kernel:
  assumes "ev (KERNEL_SIZE cfg) = Inr kernel_size"
  shows
  "(dcnn_multiclass ev cfg ish nc ms = Inr m2 \<longrightarrow>
      (0 < nat (CONV_BLOCKS cfg) \<longrightarrow>
         kernel_size_arg (hd (fst (conv_stages (layers m2)) ! 0)) =
           PInt (FILTER_EXP_BASE cfg ^ 0)) \<and>
      (\<forall>i. 0 < i \<and> i < nat (CONV_BLOCKS cfg) \<longrightarrow>
         kernel_size_arg (hd (fst (conv_stages (layers m2)) ! i)) = kernel_size)) \<and>
   (dcnn_binary ev cfg ish ms ob = Inr m1 \<longrightarrow>
      (\<forall>i < nat (CONV_BLOCKS cfg).
         kernel_size_arg (hd (fst (conv_stages (layers m1)) ! i)) = kernel_size)) \<and>
   (dcnn_multiclass_resnet ev cfg ish nc ms = Inr m3 \<longrightarrow>
      (\<exists>body. flatten_input (outputs m3) = Some body \<and>
         (\<forall>i < nat (CONV_BLOCKS cfg).
            kernel_size_arg (first_conv (fst (residual_stages body) ! i)) = kernel_size \<and>
            kernel_size_arg (second_conv (fst (residual_stages body) ! i)) = kernel_size)))"
proof (intro conjI impI)
  assume "dcnn_multiclass ev cfg ish nc ms = Inr m2"
  from multiclass_stages[OF this] assms
  show "\<forall>i. 0 < i \<and> i < nat (CONV_BLOCKS cfg) \<longrightarrow>
         kernel_size_arg (hd (fst (conv_stages (layers m2)) ! i)) = kernel_size"
    by auto
next
  assume "dcnn_multiclass ev cfg ish nc ms = Inr m2" and "0 < nat (CONV_BLOCKS cfg)"
  with multiclass_stages[of ev cfg ish nc ms m2]
  show "kernel_size_arg (hd (fst (conv_stages (layers m2)) ! 0)) = PInt (FILTER_EXP_BASE cfg ^ 0)"
    by auto
next
  assume "dcnn_binary ev cfg ish ms ob = Inr m1"
  from binary_stages[OF this] assms
  show "\<forall>i < nat (CONV_BLOCKS cfg).
         kernel_size_arg (hd (fst (conv_stages (layers m1)) ! i)) = kernel_size"
    by auto
next
  assume "dcnn_multiclass_resnet ev cfg ish nc ms = Inr m3"
  from resnet_stage_nth[OF this] assms
  show "\<exists>body. flatten_input (outputs m3) = Some body \<and>
         (\<forall>i < nat (CONV_BLOCKS cfg).
            kernel_size_arg (first_conv (fst (residual_stages body) ! i)) = kernel_size \<and>
            kernel_size_arg (second_conv (fst (residual_stages body) ! i)) = kernel_size)"
    by (auto simp: residual_stage_of_resnet_block)
qed

theorem multiclass_first_kernel_witness:
  "\<exists>m1 m2 m3 body.
     literal_eval (KERNEL_SIZE sample_config) = Inr (PTuple [PInt 3, PInt 3]) \<and>
     dcnn_binary literal_eval sample_config [224, 224, 3] [''accuracy''] None = Inr m1 \<and>
     dcnn_multiclass literal_eval sample_config [224, 224, 3] 3 [''accuracy''] = Inr m2 \<and>
     dcnn_multiclass_resnet literal_eval sample_config [224, 224, 3] 3 [''accuracy''] = Inr m3 \<and>
     flatten_input (outputs m3) = Some body \<and>
     map (\<lambda>i. kernel_size_arg (hd (fst (conv_stages (layers m2)) ! i))) [0, 1, 2] =
       [PInt 1, PTuple [PInt 3, PInt 3], PTuple [PInt 3, PInt 3]] \<and>
     map (\<lambda>i. kernel_size_arg (hd (fst (conv_stages (layers m1)) ! i))) [0, 1, 2] =
       [PTuple [PInt 3, PInt 3], PTuple [PInt 3, PInt 3], PTuple [PInt 3, PInt 3]] \<and>
     map (\<lambda>i. kernel_size_arg (first_conv (fst (residual_stages body) ! i))) [0, 1, 2] =
       [PTuple [PInt 3, PInt 3], PTuple [PInt 3, PInt 3], PTuple [PInt 3, PInt 3]] \<and>
     map (\<lambda>i. kernel_size_arg (second_conv (fst (residual_stages body) ! i))) [0, 1, 2] =
       [PTuple [PInt 3, PInt 3], PTuple [PInt 3, PInt 3], PTuple [PInt 3, PInt 3]]"
proof -
  have k: "literal_eval (KERNEL_SIZE sample_config) = Inr (PTuple [PInt 3, PInt 3])"
    by (simp add: sample_config_def sample_evals)
  obtain m1 where 1:
    "dcnn_binary literal_eval sample_config [224, 224, 3] [''accuracy''] None = Inr m1"
    using sample_binary by blast
  obtain m2 where 2:
    "dcnn_multiclass literal_eval sample_config [224, 224, 3] 3 [''accuracy''] = Inr m2"
    using sample_multiclass by blast
  obtain m3 where 3:
    "dcnn_multiclass_resnet literal_eval sample_config [224, 224, 3] 3 [''accuracy''] = Inr m3"
    using sample_resnet by blast
  have n: "nat (CONV_BLOCKS sample_config) = 3"
    by (simp add: sample_config_def)
  from multiclass_first_kernel[where ev = literal_eval and cfg = sample_config
      and kernel_size = "PTuple [PInt 3, PInt 3]" and ish = "[224, 224, 3]" and nc = 3
      and ms = "[''accuracy'']" and ob = None and ?m1.0 = m1 and ?m2.0 = m2 and ?m3.0 = m3] 1 2 3 k
  show ?thesis unfolding n by (auto intro!: exI[of _ m1] exI[of _ m2] exI[of _ m3])
qed

text \<open>
  Claim C10. In the model \<^verbatim>\<open>dcnn_multiclass\<close> returns for a configuration with at least
  one block, the kernel size of the first convolution is the integer 1, which the
  framework reads as a window of 1 by 1. This holds for every (integer) growth base and
  every kernel-size expression that evaluates: neither has an effect on the kernel of
  the first block.
\<close>

theorem multiclass_first_kernel_is_one:
  assumes "dcnn_multiclass ev cfg ish nc ms = Inr m" and "0 < CONV_BLOCKS cfg"
  shows "is_Conv2D (hd (fst (conv_stages (layers m)) ! 0)) \<and>
         kernel_size_arg (hd (fst (conv_stages (layers m)) ! 0)) = PInt 1 \<and>
         kernel_window (kernel_size_arg (hd (fst (conv_stages (layers m)) ! 0))) = Some (1, 1)"
proof -
  from assms(2) have n: "0 < nat (CONV_BLOCKS cfg)"
    by simp
  from multiclass_stages[OF assms(1)] n
  show ?thesis
    by auto
qed

theorem multiclass_first_kernel_is_one_witness:
  "\<exists>m m'.
     dcnn_multiclass literal_eval sample_config [224, 224, 3] 3 [''accuracy''] = Inr m \<and>
     0 < CONV_BLOCKS sample_config \<and>
     dcnn_multiclass literal_eval
       (sample_config\<lparr>FILTER_EXP_BASE := 3, KERNEL_SIZE := ''(2,2)''\<rparr>)
       [224, 224, 3] 3 [''accuracy''] = Inr m' \<and>
     kernel_size_arg (hd (fst (conv_stages (layers m)) ! 0)) = PInt 1 \<and>
     kernel_size_arg (hd (fst (conv_stages (layers m')) ! 0)) = PInt 1 \<and>
     kernel_window (kernel_size_arg (hd (fst (conv_stages (layers m)) ! 0))) = Some (1, 1)"
proof -
  obtain m where 1:
    "dcnn_multiclass literal_eval sample_config [224, 224, 3] 3 [''accuracy''] = Inr m"
    using sample_multiclass by blast
  have e:
    "literal_eval (KERNEL_SIZE (sample_config\<lparr>FILTER_EXP_BASE := 3, KERNEL_SIZE := ''(2,2)''\<rparr>))
       = Inr (PTuple [PInt 2, PInt 2])"
    "literal_eval (MAXPOOL_SIZE (sample_config\<lparr>FILTER_EXP_BASE := 3, KERNEL_SIZE := ''(2,2)''\<rparr>))
       = Inr (PTuple [PInt 2, PInt 2])"
    "literal_eval (STRIDES (sample_config\<lparr>FILTER_EXP_BASE := 3, KERNEL_SIZE := ''(2,2)''\<rparr>))
       = Inr (PTuple [PInt 1, PInt 1])"
    by (simp_all add: sample_config_def sample_evals)
  obtain m' where 2:
    "dcnn_multiclass literal_eval
       (sample_config\<lparr>FILTER_EXP_BASE := 3, KERNEL_SIZE := ''(2,2)''\<rparr>)
       [224, 224, 3] 3 [''accuracy''] = Inr m'"
    unfolding dcnn_multiclass_eq[OF e] by (simp add: sample_config_def)
  have n: "0 < CONV_BLOCKS sample_config"
    "0 < CONV_BLOCKS (sample_config\<lparr>FILTER_EXP_BASE := 3, KERNEL_SIZE := ''(2,2)''\<rparr>)"
    by (simp_all add: sample_config_def)
  from multiclass_first_kernel_is_one[OF 1 n(1)] multiclass_first_kernel_is_one[OF 2 n(2)] 1 2 n
  show ?thesis by blast
qed

section \<open>The bias of the output layer\<close>

text \<open>
  \<^verbatim>\<open>dcnn_binary\<close> hands its variable \<^verbatim>\<open>output_bias\<close> to the output layer in every case
  (line 52). Without an output bias the variable is \<^verbatim>\<open>None\<close>, and the layer is constructed
  with \<^verbatim>\<open>bias_initializer=None\<close>: this is not the call without the keyword, which is the
  one that selects the default initializer of the layer. Here are both calls, in the
  models built from the sample configuration: the output layer of \<^verbatim>\<open>dcnn_binary\<close> without
  an output bias, and the output layer of \<^verbatim>\<open>dcnn_multiclass\<close>, which omits the keyword.
\<close>

theorem default_bias_counterexample:
  "map_sum id output_bias_arg
     (dcnn_binary literal_eval sample_config [224, 224, 3] [''accuracy''] None) =
     Inr (Some (Passed None)) \<and>
   map_sum id output_bias_arg
     (dcnn_multiclass literal_eval sample_config [224, 224, 3] 3 [''accuracy'']) =
     Inr (Some Omitted) \<and>
   Passed None \<noteq> (Omitted :: initializer option kwarg)"
proof -
  obtain m where 1:
    "dcnn_binary literal_eval sample_config [224, 224, 3] [''accuracy''] None = Inr m"
    using sample_binary by blast
  obtain m' where 2:
    "dcnn_multiclass literal_eval sample_config [224, 224, 3] 3 [''accuracy''] = Inr m'"
    using sample_multiclass by blast
  from dcnn_binary_Inr[OF 1] have "output_bias_arg m = Some (Passed None)"
    by (auto simp: output_bias_arg_def output_layer_def)
  moreover from dcnn_multiclass_Inr[OF 2] have "output_bias_arg m' = Some Omitted"
    by (auto simp: output_bias_arg_def output_layer_def)
  ultimately show ?thesis
    by (simp add: 1 2)
qed

text \<open>
  Claim C5, amended. When \<^verbatim>\<open>dcnn_binary\<close> is given an output bias \<open>b\<close>, the bias
  initializer of the output layer of the model it returns is the constant initializer of
  value \<open>b\<close>. When it is given none, it creates no initializer and passes \<^verbatim>\<open>None\<close> as the
  bias initializer of the output layer; the keyword is not omitted. What the framework
  makes of a \<^verbatim>\<open>None\<close> initializer is not stated.
\<close>

theorem output_bias_initializer:
  "(dcnn_binary ev cfg ish ms (Some b) = Inr m \<longrightarrow>
      (\<exists>u a ki ar nm.
         output_layer m = Some (Dense u a ki ar (Passed (Some (Constant b))) nm)) \<and>
      output_bias_arg m = Some (Passed (Some (Constant b)))) \<and>
   (dcnn_binary ev cfg ish ms None = Inr m' \<longrightarrow>
      (\<exists>u a ki ar nm. output_layer m' = Some (Dense u a ki ar (Passed None) nm)) \<and>
      output_bias_arg m' = Some (Passed None) \<and>
      output_bias_arg m' \<noteq> Some Omitted)"
proof (intro conjI impI)
  assume "dcnn_binary ev cfg ish ms (Some b) = Inr m"
  from dcnn_binary_Inr[OF this]
  show "\<exists>u a ki ar nm. output_layer m = Some (Dense u a ki ar (Passed (Some (Constant b))) nm)"
    and "output_bias_arg m = Some (Passed (Some (Constant b)))"
    by (auto simp: output_layer_def output_bias_arg_def)
next
  assume "dcnn_binary ev cfg ish ms None = Inr m'"
  from dcnn_binary_Inr[OF this]
  show "\<exists>u a ki ar nm. output_layer m' = Some (Dense u a ki ar (Passed None) nm)"
    and "output_bias_arg m' = Some (Passed None)"
    and "output_bias_arg m' \<noteq> Some Omitted"
    by (auto simp: output_layer_def output_bias_arg_def)
qed

theorem output_bias_initializer_witness:
  "\<exists>m m'.
     dcnn_binary literal_eval sample_config [224, 224, 3] [''accuracy''] (Some (- 2)) = Inr m \<and>
     dcnn_binary literal_eval sample_config [224, 224, 3] [''accuracy''] None = Inr m' \<and>
     output_bias_arg m = Some (Passed (Some (Constant (- 2)))) \<and>
     output_bias_arg m' = Some (Passed None) \<and>
     output_bias_arg m' \<noteq> Some Omitted"
proof -
  obtain m where 1:
    "dcnn_binary literal_eval sample_config [224, 224, 3] [''accuracy''] (Some (- 2)) = Inr m"
    using sample_binary by blast
  obtain m' where 2:
    "dcnn_binary literal_eval sample_config [224, 224, 3] [''accuracy''] None = Inr m'"
    using sample_binary by blast
  from output_bias_initializer[of literal_eval sample_config "[224, 224, 3]" "[''accuracy'']"
      "- 2" m m'] 1 2
  show ?thesis by blast
qed

section \<open>Compilation\<close>

text \<open>
  Claim C7. Every model a builder returns is compiled with the optimizer \<^verbatim>\<open>Adam\<close> at the
  configured learning rate and with the list of metrics the caller gave; the loss is
  binary cross-entropy for \<^verbatim>\<open>dcnn_binary\<close> and categorical cross-entropy for
  \<^verbatim>\<open>dcnn_multiclass\<close> and \<^verbatim>\<open>dcnn_multiclass_resnet\<close>.
\<close>

theorem compile_arguments:
  "(dcnn_binary ev cfg ish ms ob = Inr m1 \<longrightarrow>
      compiled m1 = Some \<lparr>loss_arg = ''binary_crossentropy'',
                          optimizer_arg = Adam (LR cfg), metrics_arg = ms\<rparr>) \<and>
   (dcnn_multiclass ev cfg ish nc ms = Inr m2 \<longrightarrow>
      compiled m2 = Some \<lparr>loss_arg = ''categorical_crossentropy'',
                          optimizer_arg = Adam (LR cfg), metrics_arg = ms\<rparr>) \<and>
   (dcnn_multiclass_resnet ev cfg ish nc ms = Inr m3 \<longrightarrow>
      compiled_f m3 = Some \<lparr>loss_arg = ''categorical_crossentropy'',
                            optimizer_arg = Adam (LR cfg), metrics_arg = ms\<rparr>)"
proof (intro conjI impI)
  assume "dcnn_binary ev cfg ish ms ob = Inr m1"
  from dcnn_binary_Inr[OF this]
  show "compiled m1 = Some \<lparr>loss_arg = ''binary_crossentropy'',
                          optimizer_arg = Adam (LR cfg), metrics_arg = ms\<rparr>"
    by auto
next
  assume "dcnn_multiclass ev cfg ish nc ms = Inr m2"
  from dcnn_multiclass_Inr[OF this]
  show "compiled m2 = Some \<lparr>loss_arg = ''categorical_crossentropy'',
                          optimizer_arg = Adam (LR cfg), metrics_arg = ms\<rparr>"
    by auto
next
  assume "dcnn_multiclass_resnet ev cfg ish nc ms = Inr m3"
  from dcnn_multiclass_resnet_Inr[OF this]
  show "compiled_f m3 = Some \<lparr>loss_arg = ''categorical_crossentropy'',
                            optimizer_arg = Adam (LR cfg), metrics_arg = ms\<rparr>"
    by auto
qed

theorem compile_arguments_witness:
  "\<exists>m1 m2 m3.
     dcnn_binary literal_eval sample_config [224, 224, 3] [''accuracy'', ''auc''] None = Inr m1 \<and>
     dcnn_multiclass literal_eval sample_config [224, 224, 3] 3 [''accuracy'', ''auc''] = Inr m2 \<and>
     dcnn_multiclass_resnet literal_eval sample_config [224, 224, 3] 3 [''accuracy'', ''auc'']
       = Inr m3 \<and>
     compiled m1 = Some \<lparr>loss_arg = ''binary_crossentropy'',
        optimizer_arg = Adam (1 / 100000), metrics_arg = [''accuracy'', ''auc'']\<rparr> \<and>
     compiled m2 = Some \<lparr>loss_arg = ''categorical_crossentropy'',
        optimizer_arg = Adam (1 / 100000), metrics_arg = [''accuracy'', ''auc'']\<rparr> \<and>
     compiled_f m3 = Some \<lparr>loss_arg = ''categorical_crossentropy'',
        optimizer_arg = Adam (1 / 100000), metrics_arg = [''accuracy'', ''auc'']\<rparr>"
proof -
  obtain m1 where 1:
    "dcnn_binary literal_eval sample_config [224, 224, 3] [''accuracy'', ''auc''] None = Inr m1"
    using sample_binary by blast
  obtain m2 where 2:
    "dcnn_multiclass literal_eval sample_config [224, 224, 3] 3 [''accuracy'', ''auc''] = Inr m2"
    using sample_multiclass by blast
  obtain m3 where 3:
    "dcnn_multiclass_resnet literal_eval sample_config [224, 224, 3] 3 [''accuracy'', ''auc'']
       = Inr m3"
    using sample_resnet by blast
  have lr: "LR sample_config = 1 / 100000"
    by (simp add: sample_config_def)
  from compile_arguments[of literal_eval sample_config "[224, 224, 3]" "[''accuracy'', ''auc'']"
      None m1 3 m2 m3] 1 2 3
  show ?thesis unfolding lr by blast
qed

section \<open>Failure\<close>

text \<open>
  The three expressions are evaluated before any layer or model is created, so an
  exception of \<^verbatim>\<open>eval\<close> leaves the builder at once.
\<close>

lemma dcnn_binary_Inl:
  "(\<exists>e. ev (KERNEL_SIZE cfg) = Inl e) \<or> (\<exists>e. ev (MAXPOOL_SIZE cfg) = Inl e) \<or>
   (\<exists>e. ev (STRIDES cfg) = Inl e) \<Longrightarrow> \<exists>e. dcnn_binary ev cfg ish ms ob = Inl e"
  by (auto simp: dcnn_binary_def Let_def split: sum.splits)

lemma dcnn_multiclass_Inl:
  "(\<exists>e. ev (KERNEL_SIZE cfg) = Inl e) \<or> (\<exists>e. ev (MAXPOOL_SIZE cfg) = Inl e) \<or>
   (\<exists>e. ev (STRIDES cfg) = Inl e) \<Longrightarrow> \<exists>e. dcnn_multiclass ev cfg ish nc ms = Inl e"
  by (auto simp: dcnn_multiclass_def Let_def split: sum.splits)

lemma dcnn_multiclass_resnet_Inl:
  "(\<exists>e. ev (KERNEL_SIZE cfg) = Inl e) \<or> (\<exists>e. ev (MAXPOOL_SIZE cfg) = Inl e) \<or>
   (\<exists>e. ev (STRIDES cfg) = Inl e) \<Longrightarrow> \<exists>e. dcnn_multiclass_resnet ev cfg ish nc ms = Inl e"
  by (auto simp: dcnn_multiclass_resnet_def Let_def split: sum.splits)

text \<open>
  Claim C8. When the kernel-size, the pool-size or the stride expression of the
  configuration does not evaluate, each of the three builders fails and returns no model.
  No builder returns a partly built model: a model that is returned is compiled, its
  summary has been printed, and it holds all the blocks and the whole head (four layers
  for each block and five, respectively six, layers of head in the stacks; the head from
  \<^verbatim>\<open>Flatten\<close> to the output layer in the graph).
\<close>

theorem malformed_expression_fails:
  "((\<exists>e. ev (KERNEL_SIZE cfg) = Inl e) \<or> (\<exists>e. ev (MAXPOOL_SIZE cfg) = Inl e) \<or>
    (\<exists>e. ev (STRIDES cfg) = Inl e) \<longrightarrow>
      (\<exists>e. dcnn_binary ev cfg ish ms ob = Inl e) \<and>
      (\<exists>e. dcnn_multiclass ev cfg ish nc ms = Inl e) \<and>
      (\<exists>e. dcnn_multiclass_resnet ev cfg ish nc ms = Inl e)) \<and>
   (dcnn_binary ev cfg ish ms ob = Inr m1 \<longrightarrow>
      compiled m1 \<noteq> None \<and> summarised m1 \<and>
      length (layers m1) = 4 * nat (CONV_BLOCKS cfg) + 5) \<and>
   (dcnn_multiclass ev cfg ish nc ms = Inr m2 \<longrightarrow>
      compiled m2 \<noteq> None \<and> summarised m2 \<and>
      length (layers m2) = 4 * nat (CONV_BLOCKS cfg) + 6) \<and>
   (dcnn_multiclass_resnet ev cfg ish nc ms = Inr m3 \<longrightarrow>
      compiled_f m3 \<noteq> None \<and> summarised_f m3 \<and>
      output_layer_f m3 \<noteq> None \<and> flatten_input (outputs m3) \<noteq> None)"
proof (intro conjI impI)
  assume a: "(\<exists>e. ev (KERNEL_SIZE cfg) = Inl e) \<or> (\<exists>e. ev (MAXPOOL_SIZE cfg) = Inl e) \<or>
    (\<exists>e. ev (STRIDES cfg) = Inl e)"
  show "\<exists>e. dcnn_binary ev cfg ish ms ob = Inl e"
    by (rule dcnn_binary_Inl[OF a])
  show "\<exists>e. dcnn_multiclass ev cfg ish nc ms = Inl e"
    by (rule dcnn_multiclass_Inl[OF a])
  show "\<exists>e. dcnn_multiclass_resnet ev cfg ish nc ms = Inl e"
    by (rule dcnn_multiclass_resnet_Inl[OF a])
next
  assume "dcnn_binary ev cfg ish ms ob = Inr m1"
  from dcnn_binary_Inr[OF this]
  show "compiled m1 \<noteq> None" and "summarised m1"
    and "length (layers m1) = 4 * nat (CONV_BLOCKS cfg) + 5"
    by (auto simp: length_concat comp_def sum_list_triv)
next
  assume "dcnn_multiclass ev cfg ish nc ms = Inr m2"
  from dcnn_multiclass_Inr[OF this]
  show "compiled m2 \<noteq> None" and "summarised m2"
    and "length (layers m2) = 4 * nat (CONV_BLOCKS cfg) + 6"
    by (auto simp: length_concat comp_def sum_list_triv)
next
  assume "dcnn_multiclass_resnet ev cfg ish nc ms = Inr m3"
  from dcnn_multiclass_resnet_Inr[OF this]
  show "compiled_f m3 \<noteq> None" and "summarised_f m3" and "output_layer_f m3 \<noteq> None"
    and "flatten_input (outputs m3) \<noteq> None"
    by (auto simp: output_layer_f_def)
qed

theorem malformed_expression_fails_witness:
  "\<exists>m1 m2 m3.
     literal_eval (KERNEL_SIZE (sample_config\<lparr>KERNEL_SIZE := ''(3,3''\<rparr>)) = Inl SyntaxError \<and>
     dcnn_binary literal_eval (sample_config\<lparr>KERNEL_SIZE := ''(3,3''\<rparr>) [224, 224, 3]
       [''accuracy''] None = Inl SyntaxError \<and>
     dcnn_multiclass literal_eval (sample_config\<lparr>KERNEL_SIZE := ''(3,3''\<rparr>) [224, 224, 3] 3
       [''accuracy''] = Inl SyntaxError \<and>
     dcnn_multiclass_resnet literal_eval (sample_config\<lparr>KERNEL_SIZE := ''(3,3''\<rparr>) [224, 224, 3] 3
       [''accuracy''] = Inl SyntaxError \<and>
     dcnn_binary literal_eval sample_config [224, 224, 3] [''accuracy''] None = Inr m1 \<and>
     dcnn_multiclass literal_eval sample_config [224, 224, 3] 3 [''accuracy''] = Inr m2 \<and>
     dcnn_multiclass_resnet literal_eval sample_config [224, 224, 3] 3 [''accuracy''] = Inr m3 \<and>
     compiled m1 \<noteq> None \<and> length (layers m1) = 17 \<and>
     compiled m2 \<noteq> None \<and> length (layers m2) = 18 \<and>
     compiled_f m3 \<noteq> None \<and> flatten_input (outputs m3) \<noteq> None"
proof -
  let ?bad = "sample_config\<lparr>KERNEL_SIZE := ''(3,3''\<rparr>"
  have k: "literal_eval (KERNEL_SIZE ?bad) = Inl SyntaxError"
    by (simp add: sample_evals)
  obtain m1 where 1:
    "dcnn_binary literal_eval sample_config [224, 224, 3] [''accuracy''] None = Inr m1"
    using sample_binary by blast
  obtain m2 where 2:
    "dcnn_multiclass literal_eval sample_config [224, 224, 3] 3 [''accuracy''] = Inr m2"
    using sample_multiclass by blast
  obtain m3 where 3:
    "dcnn_multiclass_resnet literal_eval sample_config [224, 224, 3] 3 [''accuracy''] = Inr m3"
    using sample_resnet by blast
  have n: "nat (CONV_BLOCKS sample_config) = 3"
    by (simp add: sample_config_def)
  have b: "dcnn_binary literal_eval ?bad [224, 224, 3] [''accuracy''] None = Inl SyntaxError"
    "dcnn_multiclass literal_eval ?bad [224, 224, 3] 3 [''accuracy''] = Inl SyntaxError"
    "dcnn_multiclass_resnet literal_eval ?bad [224, 224, 3] 3 [''accuracy''] = Inl SyntaxError"
    by (simp_all add: dcnn_binary_def dcnn_multiclass_def dcnn_multiclass_resnet_def
          sample_evals Let_def)
  from malformed_expression_fails[of literal_eval ?bad "[224, 224, 3]" "[''accuracy'']" None 3]
  have f: "(\<exists>e. dcnn_binary literal_eval ?bad [224, 224, 3] [''accuracy''] None = Inl e) \<and>
      (\<exists>e. dcnn_multiclass literal_eval ?bad [224, 224, 3] 3 [''accuracy''] = Inl e) \<and>
      (\<exists>e. dcnn_multiclass_resnet literal_eval ?bad [224, 224, 3] 3 [''accuracy''] = Inl e)"
    using k by blast
  from malformed_expression_fails[of literal_eval sample_config "[224, 224, 3]" "[''accuracy'']"
      None 3 m1 m2 m3] 1 2 3
  have s: "compiled m1 \<noteq> None \<and> length (layers m1) = 17 \<and>
     compiled m2 \<noteq> None \<and> length (layers m2) = 18 \<and>
     compiled_f m3 \<noteq> None \<and> flatten_input (outputs m3) \<noteq> None"
    unfolding n by simp
  from k b f s 1 2 3 show ?thesis by blast
qed

section \<open>The residual blocks\<close>

text \<open>
  Claim C6. In the model \<^verbatim>\<open>dcnn_multiclass_resnet\<close> returns, every block \<open>i\<close> below the
  block count is built as follows. The input of the block is kept as the shortcut: the
  tensor the first convolution is called on is the second tensor of the concatenation,
  and it is the input of the model for block 0 and the pooled output of block \<open>i - 1\<close>
  otherwise. The transformed branch goes through two convolutions, with a batch
  normalisation and a leaky activation between them. The two branches are concatenated,
  and only then come the last batch normalisation, the leaky activation and the max
  pooling of the block. The tensor that enters the pooling has as many channels as the
  shortcut and the transformed branch together: the transformed branch has
  \<open>INIT_FILTERS * FILTER_EXP_BASE ^ i\<close> channels, and the shortcut has the channels of the
  input and of the transformed branches of all earlier blocks. The input shape is not
  empty, so that the input has a channel axis.
\<close>

theorem residual_block_structure:
  assumes "dcnn_multiclass_resnet ev cfg ish nc ms = Inr m" and "ish \<noteq> []"
  shows "\<exists>body. flatten_input (outputs m) = Some body \<and>
     (\<forall>i < nat (CONV_BLOCKS cfg).
        (let stages = fst (residual_stages body); st = stages ! i in
           shortcut st = block_input st \<and>
           shortcut st =
             (if i = 0 then inputs m
              else Call (pooling (stages ! (i - 1))) (pre_pooling (stages ! (i - 1)))) \<and>
           is_Conv2D (first_conv st) \<and> is_Conv2D (second_conv st) \<and>
           transformed st =
             Call (second_conv st) (Call LeakyReLU (Call BatchNormalization
               (Call (first_conv st) (block_input st)))) \<and>
           pre_pooling st =
             Call LeakyReLU (Call BatchNormalization
               (concatenate [transformed st, shortcut st])) \<and>
           is_MaxPool2D (pooling st) \<and>
           channels (transformed st) = Some (INIT_FILTERS cfg * FILTER_EXP_BASE cfg ^ i) \<and>
           channels (shortcut st) =
             Some (last ish + (\<Sum>j<i. INIT_FILTERS cfg * FILTER_EXP_BASE cfg ^ j)) \<and>
           channels (pre_pooling st) =
             Some (the (channels (shortcut st)) + the (channels (transformed st)))))"
proof -
  from resnet_stage_nth[OF assms(1)] obtain k p s body where
    i: "inputs m = Input ish" and b: "flatten_input (outputs m) = Some body" and
    st: "\<And>i. i < nat (CONV_BLOCKS cfg) \<Longrightarrow>
              fst (residual_stages body) ! i =
                the (residual_stage_of
                  (resnet_block (INIT_FILTERS cfg) (FILTER_EXP_BASE cfg) (L2_LAMBDA cfg) k p s i
                    (fold (resnet_block (INIT_FILTERS cfg) (FILTER_EXP_BASE cfg) (L2_LAMBDA cfg)
                       k p s) [0..<i] (Input ish))))"
    by blast
  let ?B = "resnet_block (INIT_FILTERS cfg) (FILTER_EXP_BASE cfg) (L2_LAMBDA cfg) k p s"
  have ch: "channels (fold ?B [0..<i] (Input ish)) =
      Some (last ish + (\<Sum>j<i. INIT_FILTERS cfg * FILTER_EXP_BASE cfg ^ j))" for i
    using assms(2) by (simp add: channels_fold)
  have "\<forall>i < nat (CONV_BLOCKS cfg).
        (let stages = fst (residual_stages body); st = stages ! i in
           shortcut st = block_input st \<and>
           shortcut st =
             (if i = 0 then inputs m
              else Call (pooling (stages ! (i - 1))) (pre_pooling (stages ! (i - 1)))) \<and>
           is_Conv2D (first_conv st) \<and> is_Conv2D (second_conv st) \<and>
           transformed st =
             Call (second_conv st) (Call LeakyReLU (Call BatchNormalization
               (Call (first_conv st) (block_input st)))) \<and>
           pre_pooling st =
             Call LeakyReLU (Call BatchNormalization
               (concatenate [transformed st, shortcut st])) \<and>
           is_MaxPool2D (pooling st) \<and>
           channels (transformed st) = Some (INIT_FILTERS cfg * FILTER_EXP_BASE cfg ^ i) \<and>
           channels (shortcut st) =
             Some (last ish + (\<Sum>j<i. INIT_FILTERS cfg * FILTER_EXP_BASE cfg ^ j)) \<and>
           channels (pre_pooling st) =
             Some (the (channels (shortcut st)) + the (channels (transformed st))))"
  proof (intro allI impI)
    fix n assume n: "n < nat (CONV_BLOCKS cfg)"
    show "(let stages = fst (residual_stages body); st = stages ! n in
           shortcut st = block_input st \<and>
           shortcut st =
             (if n = 0 then inputs m
              else Call (pooling (stages ! (n - 1))) (pre_pooling (stages ! (n - 1)))) \<and>
           is_Conv2D (first_conv st) \<and> is_Conv2D (second_conv st) \<and>
           transformed st =
             Call (second_conv st) (Call LeakyReLU (Call BatchNormalization
               (Call (first_conv st) (block_input st)))) \<and>
           pre_pooling st =
             Call LeakyReLU (Call BatchNormalization
               (concatenate [transformed st, shortcut st])) \<and>
           is_MaxPool2D (pooling st) \<and>
           channels (transformed st) = Some (INIT_FILTERS cfg * FILTER_EXP_BASE cfg ^ n) \<and>
           channels (shortcut st) =
             Some (last ish + (\<Sum>j<n. INIT_FILTERS cfg * FILTER_EXP_BASE cfg ^ j)) \<and>
           channels (pre_pooling st) =
             Some (the (channels (shortcut st)) + the (channels (transformed st))))"
    proof (cases "n = 0")
      case True
      then show ?thesis
        unfolding Let_def st[OF n] using assms(2)
        by (simp add: residual_stage_of_resnet_block i)
    next
      case False
      then obtain j where j: "n = Suc j"
        by (cases n) auto
      from n have p: "j < nat (CONV_BLOCKS cfg)"
        unfolding j by simp
      show ?thesis
        unfolding Let_def j st[OF n[unfolded j]] using st[OF p]
        by (simp add: residual_stage_of_resnet_block ch del: upt_Suc)
           (simp add: resnet_block_def)
    qed
  qed
  with b show ?thesis by blast
qed

theorem residual_block_structure_witness:
  "\<exists>m body.
     dcnn_multiclass_resnet literal_eval sample_config [224, 224, 3] 3 [''accuracy''] = Inr m \<and>
     [224, 224, 3 :: int] \<noteq> [] \<and>
     flatten_input (outputs m) = Some body \<and>
     shortcut (fst (residual_stages body) ! 0) = Input [224, 224, 3] \<and>
     map (\<lambda>i. channels (shortcut (fst (residual_stages body) ! i))) [0, 1, 2] =
       [Some 3, Some 19, Some 51] \<and>
     map (\<lambda>i. channels (transformed (fst (residual_stages body) ! i))) [0, 1, 2] =
       [Some 16, Some 32, Some 64] \<and>
     map (\<lambda>i. channels (pre_pooling (fst (residual_stages body) ! i))) [0, 1, 2] =
       [Some 19, Some 51, Some 115]"
proof -
  obtain m where 1:
    "dcnn_multiclass_resnet literal_eval sample_config [224, 224, 3] 3 [''accuracy''] = Inr m"
    using sample_resnet by blast
  have c: "nat (CONV_BLOCKS sample_config) = 3" "INIT_FILTERS sample_config = 16"
    "FILTER_EXP_BASE sample_config = 2"
    by (simp_all add: sample_config_def)
  have i: "inputs m = Input [224, 224, 3]"
    using dcnn_multiclass_resnet_Inr[OF 1] by auto
  from residual_block_structure[OF 1] obtain body where
    b: "flatten_input (outputs m) = Some body" and
    a: "\<forall>i < 3.
        (let stages = fst (residual_stages body); st = stages ! i in
           shortcut st = block_input st \<and>
           shortcut st =
             (if i = 0 then inputs m
              else Call (pooling (stages ! (i - 1))) (pre_pooling (stages ! (i - 1)))) \<and>
           is_Conv2D (first_conv st) \<and> is_Conv2D (second_conv st) \<and>
           transformed st =
             Call (second_conv st) (Call LeakyReLU (Call BatchNormalization
               (Call (first_conv st) (block_input st)))) \<and>
           pre_pooling st =
             Call LeakyReLU (Call BatchNormalization
               (concatenate [transformed st, shortcut st])) \<and>
           is_MaxPool2D (pooling st) \<and>
           channels (transformed st) = Some (16 * 2 ^ i) \<and>
           channels (shortcut st) = Some (last [224, 224, 3] + (\<Sum>j<i. 16 * 2 ^ j)) \<and>
           channels (pre_pooling st) =
             Some (the (channels (shortcut st)) + the (channels (transformed st))))"
    unfolding c by blast
  have s: "(\<Sum>j<(1::nat). 16 * 2 ^ j) = (16::int)" "(\<Sum>j<(2::nat). 16 * 2 ^ j) = (48::int)"
    by (simp_all add: eval_nat_numeral)
  let ?S = "fst (residual_stages body)"
  have lt: "0 < (3::nat)" "1 < (3::nat)" "2 < (3::nat)"
    by simp_all
  note i0 = a[rule_format, OF lt(1), unfolded Let_def]
  note i1 = a[rule_format, OF lt(2), unfolded Let_def]
  note i2 = a[rule_format, OF lt(3), unfolded Let_def]
  from i0 have "shortcut (?S ! 0) = (if (0::nat) = 0 then inputs m
      else Call (pooling (?S ! (0 - 1))) (pre_pooling (?S ! (0 - 1))))"
    by blast
  then have x0: "shortcut (?S ! 0) = Input [224, 224, 3]"
    by (simp add: i)
  from i0 have "channels (transformed (?S ! 0)) = Some (16 * 2 ^ 0)"
    and "channels (shortcut (?S ! 0)) = Some (last [224, 224, 3] + (\<Sum>j<(0::nat). 16 * 2 ^ j))"
    and p0: "channels (pre_pooling (?S ! 0)) =
      Some (the (channels (shortcut (?S ! 0))) + the (channels (transformed (?S ! 0))))"
    by blast+
  then have c0: "channels (transformed (?S ! 0)) = Some 16" "channels (shortcut (?S ! 0)) = Some 3"
    by simp_all
  from i1 have "channels (transformed (?S ! 1)) = Some (16 * 2 ^ 1)"
    and "channels (shortcut (?S ! 1)) = Some (last [224, 224, 3] + (\<Sum>j<(1::nat). 16 * 2 ^ j))"
    and p1: "channels (pre_pooling (?S ! 1)) =
      Some (the (channels (shortcut (?S ! 1))) + the (channels (transformed (?S ! 1))))"
    by blast+
  then have c1: "channels (transformed (?S ! 1)) = Some 32" "channels (shortcut (?S ! 1)) = Some 19"
    by (simp_all add: s)
  from i2 have "channels (transformed (?S ! 2)) = Some (16 * 2 ^ 2)"
    and "channels (shortcut (?S ! 2)) = Some (last [224, 224, 3] + (\<Sum>j<(2::nat). 16 * 2 ^ j))"
    and p2: "channels (pre_pooling (?S ! 2)) =
      Some (the (channels (shortcut (?S ! 2))) + the (channels (transformed (?S ! 2))))"
    by blast+
  then have c2: "channels (transformed (?S ! 2)) = Some 64" "channels (shortcut (?S ! 2)) = Some 51"
    by (simp_all add: s)
  from 1 b x0 c0 c1 c2 p0 p1 p2 show ?thesis
    by (intro exI[of _ m] exI[of _ body]) simp
qed

section \<open>A block count of zero\<close>

text \<open>
  No builder looks at the block count before it builds: with a count of zero or less
  the loop body never runs. A \<^verbatim>\<open>Sequential\<close> stack then begins with \<^verbatim>\<open>Flatten\<close>, no layer
  carries the input shape, and the summary at the end of the builder fails.
\<close>

lemma dcnn_binary_zero_blocks:
  assumes "CONV_BLOCKS cfg \<le> 0"
  shows "\<exists>e. dcnn_binary ev cfg ish ms ob = Inl e"
proof (cases "dcnn_binary ev cfg ish ms ob")
  case (Inl e)
  then show ?thesis by blast
next
  case (Inr m)
  from dcnn_binary_evals[OF Inr] obtain k p s where
    e: "ev (KERNEL_SIZE cfg) = Inr k" "ev (MAXPOOL_SIZE cfg) = Inr p" "ev (STRIDES cfg) = Inr s"
    by blast
  from Inr assms show ?thesis
    unfolding dcnn_binary_eq[OF e] by simp
qed

lemma dcnn_multiclass_zero_blocks:
  assumes "CONV_BLOCKS cfg \<le> 0"
  shows "\<exists>e. dcnn_multiclass ev cfg ish nc ms = Inl e"
proof (cases "dcnn_multiclass ev cfg ish nc ms")
  case (Inl e)
  then show ?thesis by blast
next
  case (Inr m)
  from dcnn_multiclass_evals[OF Inr] obtain k p s where
    e: "ev (KERNEL_SIZE cfg) = Inr k" "ev (MAXPOOL_SIZE cfg) = Inr p" "ev (STRIDES cfg) = Inr s"
    by blast
  from Inr assms show ?thesis
    unfolding dcnn_multiclass_eq[OF e] by simp
qed

text \<open>
  In \<^verbatim>\<open>dcnn_multiclass_resnet\<close> the input tensor goes straight to \<^verbatim>\<open>Flatten\<close> and the dense
  head, and the model is compiled and returned like any other. Here is such a build, with
  the sample configuration and a block count of zero.
\<close>

theorem zero_blocks_counterexample:
  "CONV_BLOCKS zero_block_config = 0 \<and>
   dcnn_multiclass_resnet literal_eval zero_block_config [224, 224, 3] 3 [''accuracy''] =
     Inr \<lparr>inputs = Input [224, 224, 3],
          outputs =
            Call (Dense 3 (Passed ''softmax'') Omitted Omitted Omitted (Passed ''output''))
              (Call LeakyReLU
                (Call (Dense 128 Omitted (Passed ''he_uniform'') (Passed (l2 (1 / 10000)))
                         Omitted Omitted)
                  (Call (Dropout (4 / 10))
                    (Call Flatten (Input [224, 224, 3]))))),
          compiled_f = Some \<lparr>loss_arg = ''categorical_crossentropy'',
             optimizer_arg = Adam (1 / 100000), metrics_arg = [''accuracy'']\<rparr>,
          summarised_f = True\<rparr>"
  by (simp add: dcnn_multiclass_resnet_def zero_block_config_def sample_config_def sample_evals
        Let_def range_py_def Model_def compile_f_def summary_f_def)

text \<open>
  Claim C9, amended. With a block count of zero or less, \<^verbatim>\<open>dcnn_binary\<close> and
  \<^verbatim>\<open>dcnn_multiclass\<close> return no model: when the three size expressions evaluate they
  fail with \<^verbatim>\<open>ValueError\<close> at the summary, the stack having no input shape, and
  otherwise with the exception of the evaluation. \<^verbatim>\<open>dcnn_multiclass_resnet\<close> has no such
  check: every model it returns at such a block count is compiled and has \<^verbatim>\<open>Flatten\<close>
  called on the input tensor, followed by the dense head, with no convolution and no
  pooling stage in between; the build above is one.
\<close>

theorem zero_blocks:
  assumes "CONV_BLOCKS cfg \<le> 0"
  shows
  "(\<exists>e. dcnn_binary ev cfg ish ms ob = Inl e) \<and>
   (\<exists>e. dcnn_multiclass ev cfg ish nc ms = Inl e) \<and>
   (ev (KERNEL_SIZE cfg) = Inr kernel_size \<and> ev (MAXPOOL_SIZE cfg) = Inr max_pool_size \<and>
    ev (STRIDES cfg) = Inr strides \<longrightarrow>
      dcnn_binary ev cfg ish ms ob = Inl ValueError \<and>
      dcnn_multiclass ev cfg ish nc ms = Inl ValueError) \<and>
   (dcnn_multiclass_resnet ev cfg ish nc ms = Inr m \<longrightarrow>
      compiled_f m \<noteq> None \<and>
      inputs m = Input ish \<and>
      flatten_input (outputs m) = Some (inputs m) \<and>
      fst (residual_stages (inputs m)) = [] \<and>
      outputs m =
        Call (Dense nc (Passed ''softmax'') Omitted Omitted Omitted (Passed ''output''))
          (Call LeakyReLU
            (Call (Dense (NODES_DENSE0 cfg) Omitted (Passed ''he_uniform'')
                     (Passed (l2 (L2_LAMBDA cfg))) Omitted Omitted)
              (Call (Dropout (DROPOUT cfg))
                (Call Flatten (Input ish))))))"
proof (intro conjI impI)
  show "\<exists>e. dcnn_binary ev cfg ish ms ob = Inl e"
    by (rule dcnn_binary_zero_blocks[OF assms])
  show "\<exists>e. dcnn_multiclass ev cfg ish nc ms = Inl e"
    by (rule dcnn_multiclass_zero_blocks[OF assms])
next
  assume e: "ev (KERNEL_SIZE cfg) = Inr kernel_size \<and> ev (MAXPOOL_SIZE cfg) = Inr max_pool_size \<and>
    ev (STRIDES cfg) = Inr strides"
  then have e': "ev (KERNEL_SIZE cfg) = Inr kernel_size" "ev (MAXPOOL_SIZE cfg) = Inr max_pool_size"
    "ev (STRIDES cfg) = Inr strides"
    by simp_all
  show "dcnn_binary ev cfg ish ms ob = Inl ValueError"
    unfolding dcnn_binary_eq[OF e'] using assms by simp
  show "dcnn_multiclass ev cfg ish nc ms = Inl ValueError"
    unfolding dcnn_multiclass_eq[OF e'] using assms by simp
next
  assume r: "dcnn_multiclass_resnet ev cfg ish nc ms = Inr m"
  from assms have n: "nat (CONV_BLOCKS cfg) = 0"
    by simp
  from dcnn_multiclass_resnet_Inr[OF r] obtain k p s where
    m: "m = \<lparr>inputs = Input ish,
                outputs =
                  Call (Dense nc (Passed ''softmax'') Omitted Omitted Omitted (Passed ''output''))
                    (Call LeakyReLU
                      (Call (Dense (NODES_DENSE0 cfg) Omitted (Passed ''he_uniform'')
                               (Passed (l2 (L2_LAMBDA cfg))) Omitted Omitted)
                        (Call (Dropout (DROPOUT cfg))
                          (Call Flatten
                            (fold (resnet_block (INIT_FILTERS cfg) (FILTER_EXP_BASE cfg)
                                     (L2_LAMBDA cfg) k p s)
                               [0..<nat (CONV_BLOCKS cfg)] (Input ish)))))),
                compiled_f = Some \<lparr>loss_arg = ''categorical_crossentropy'',
                   optimizer_arg = Adam (LR cfg), metrics_arg = ms\<rparr>,
                summarised_f = True\<rparr>"
    by blast
  show "compiled_f m \<noteq> None" and "inputs m = Input ish"
    and "flatten_input (outputs m) = Some (inputs m)"
    and "fst (residual_stages (inputs m)) = []"
    and "outputs m =
        Call (Dense nc (Passed ''softmax'') Omitted Omitted Omitted (Passed ''output''))
          (Call LeakyReLU
            (Call (Dense (NODES_DENSE0 cfg) Omitted (Passed ''he_uniform'')
                     (Passed (l2 (L2_LAMBDA cfg))) Omitted Omitted)
              (Call (Dropout (DROPOUT cfg))
                (Call Flatten (Input ish)))))"
    unfolding m n by (simp_all add: residual_stages_Input)
qed

theorem zero_blocks_witness:
  "\<exists>m. CONV_BLOCKS zero_block_config \<le> 0 \<and>
     literal_eval (KERNEL_SIZE zero_block_config) = Inr (PTuple [PInt 3, PInt 3]) \<and>
     literal_eval (MAXPOOL_SIZE zero_block_config) = Inr (PTuple [PInt 2, PInt 2]) \<and>
     literal_eval (STRIDES zero_block_config) = Inr (PTuple [PInt 1, PInt 1]) \<and>
     dcnn_binary literal_eval zero_block_config [224, 224, 3] [''accuracy''] None =
       Inl ValueError \<and>
     dcnn_multiclass literal_eval zero_block_config [224, 224, 3] 3 [''accuracy''] =
       Inl ValueError \<and>
     dcnn_multiclass_resnet literal_eval zero_block_config [224, 224, 3] 3 [''accuracy''] = Inr m \<and>
     compiled_f m \<noteq> None \<and>
     flatten_input (outputs m) = Some (inputs m) \<and>
     fst (residual_stages (inputs m)) = []"
proof -
  have c: "CONV_BLOCKS zero_block_config \<le> 0"
    and k: "literal_eval (KERNEL_SIZE zero_block_config) = Inr (PTuple [PInt 3, PInt 3])"
    and p: "literal_eval (MAXPOOL_SIZE zero_block_config) = Inr (PTuple [PInt 2, PInt 2])"
    and s: "literal_eval (STRIDES zero_block_config) = Inr (PTuple [PInt 1, PInt 1])"
    by (simp_all add: zero_block_config_def sample_config_def sample_evals)
  obtain m where r:
    "dcnn_multiclass_resnet literal_eval zero_block_config [224, 224, 3] 3 [''accuracy''] = Inr m"
    by (simp add: dcnn_multiclass_resnet_def zero_block_config_def sample_config_def
          sample_evals Let_def)
  from zero_blocks[OF c, where ev = literal_eval and kernel_size = "PTuple [PInt 3, PInt 3]"
      and max_pool_size = "PTuple [PInt 2, PInt 2]" and strides = "PTuple [PInt 1, PInt 1]"
      and ish = "[224, 224, 3]" and ms = "[''accuracy'']" and ob = None and nc = 3 and m = m]
    c k p s r
  show ?thesis by blast
qed

end
